theory Spec2Isabelle
  imports Main "HOL-Library.Word"
begin

unbundle bit_operations_syntax

section \<open>Data model of decipher.go\<close>

type_synonym byte = "8 word"

text \<open>
  Go errors. The two sentinels \<open>NoCipherFile\<close> and \<open>ErrDecipher\<close> are the package
  variables of decipher.go; \<open>EOF\<close> and \<open>ErrUnexpectedEOF\<close> are those of package io;
  \<open>KeySizeError\<close> is the one of crypto/aes; \<open>OsError\<close> stands for any error of the
  operating system (a failed open, create or seek). \<open>Errorf_w f w\<close> is
  \<open>fmt.Errorf(f, w)\<close> with \<open>w\<close> the operand of the verb \<open>%w\<close>, and
  \<open>Errorf_wv f w v\<close> has a further error operand \<open>v\<close> printed with \<open>%v\<close>.
\<close>

datatype error =
    NoCipherFile
  | ErrDecipher
  | EOF
  | ErrUnexpectedEOF
  | KeySizeError nat
  | OsError string
  | Errorf_w string error
  | Errorf_wv string error error


text \<open>A call either returns or panics (a Go run-time panic, with its message).\<close>

datatype 'a outcome = Returns 'a | Panics string

text \<open>
  The constants of decipher.go. The field \<open>size\<close> of \<open>encryptHeader\<close> is called
  \<open>size_field\<close> here.
\<close>

definition BlockSize :: int where "BlockSize = 16"
definition HeaderV2Length :: nat where "HeaderV2Length = 80"
definition SaltSize :: nat where "SaltSize = 8"
definition AesKeyStrength :: nat where "AesKeyStrength = 256"
definition ITERATIONS :: nat where "ITERATIONS = 1"

definition QNAPFilePrefixV1Bytes :: "byte list" where
  "QNAPFilePrefixV1Bytes = [7, 95, 95, 81, 67, 83, 95, 95]"

definition QNAPFilePrefixV2Bytes :: "byte list" where
  "QNAPFilePrefixV2Bytes = [75, 202, 148, 114, 94, 131, 28, 49]"

text \<open>The bytes of the ASCII text \<open>Salted__\<close>.\<close>

definition OpenSSLPrefix :: "byte list" where
  "OpenSSLPrefix = [83, 97, 108, 116, 101, 100, 95, 95]"

record encryptHeader =
  size_field :: "64 word"
  ckey :: "byte list"
  salt :: "byte list"

record fileType =
  compressed :: bool
  encryptVersion :: int

record DecipherParam =
  CipheredFileName :: string
  PlainFileName :: string
  Password :: "byte list"
  Verbose :: bool

section \<open>The standard library, as far as decipher.go calls it\<close>

subsection \<open>AES block decryption (FIPS 197), as crypto/aes computes it\<close>

text \<open>
  The block cipher works on bits: a byte is two nibbles of four bits, most significant
  first, and \<open>h0\<close> to \<open>hF\<close> are the sixteen nibbles.
\<close>

datatype nib = Nib bool bool bool bool
datatype octet = Oct nib nib

abbreviation h0 :: nib where "h0 \<equiv> Nib False False False False"
abbreviation h1 :: nib where "h1 \<equiv> Nib False False False True"
abbreviation h2 :: nib where "h2 \<equiv> Nib False False True False"
abbreviation h3 :: nib where "h3 \<equiv> Nib False False True True"
abbreviation h4 :: nib where "h4 \<equiv> Nib False True False False"
abbreviation h5 :: nib where "h5 \<equiv> Nib False True False True"
abbreviation h6 :: nib where "h6 \<equiv> Nib False True True False"
abbreviation h7 :: nib where "h7 \<equiv> Nib False True True True"
abbreviation h8 :: nib where "h8 \<equiv> Nib True False False False"
abbreviation h9 :: nib where "h9 \<equiv> Nib True False False True"
abbreviation hA :: nib where "hA \<equiv> Nib True False True False"
abbreviation hB :: nib where "hB \<equiv> Nib True False True True"
abbreviation hC :: nib where "hC \<equiv> Nib True True False False"
abbreviation hD :: nib where "hD \<equiv> Nib True True False True"
abbreviation hE :: nib where "hE \<equiv> Nib True True True False"
abbreviation hF :: nib where "hF \<equiv> Nib True True True True"

definition to_octet :: "byte \<Rightarrow> octet" where
  "to_octet w = Oct (Nib (bit w 7) (bit w 6) (bit w 5) (bit w 4))
                    (Nib (bit w 3) (bit w 2) (bit w 1) (bit w 0))"

fun of_octet :: "octet \<Rightarrow> byte" where
  "of_octet (Oct (Nib a b c d) (Nib e f g h)) =
     (if a then 128 else 0) + (if b then 64 else 0) + (if c then 32 else 0) + (if d then 16 else 0)
     + (if e then 8 else 0) + (if f then 4 else 0) + (if g then 2 else 0) + (if h then 1 else 0)"

definition bxor :: "bool \<Rightarrow> bool \<Rightarrow> bool" where
  "bxor a b = (a \<noteq> b)"

fun nxor :: "nib \<Rightarrow> nib \<Rightarrow> nib" where
  "nxor (Nib a b c d) (Nib e f g h) = Nib (bxor a e) (bxor b f) (bxor c g) (bxor d h)"

fun oxor :: "octet \<Rightarrow> octet \<Rightarrow> octet" where
  "oxor (Oct a b) (Oct c d) = Oct (nxor a c) (nxor b d)"

text \<open>Multiplication by x in GF(2^8) modulo x^8 + x^4 + x^3 + x + 1.\<close>

fun xtime :: "octet \<Rightarrow> octet" where
  "xtime (Oct (Nib a b c d) (Nib e f g h)) = Oct (Nib b c d (bxor e a)) (Nib (bxor f a) g (bxor h a) a)"

text \<open>The S-box and its inverse, as decision trees on the eight bits of the argument.\<close>

fun SubByte :: "octet \<Rightarrow> octet" where
  "SubByte (Oct (Nib a b c d) (Nib e f g h)) =
     (if a
       then (if b
        then (if c
         then (if d
          then (if e
           then (if f
            then (if g then (if h then Oct h1 h6 else Oct hB hB) else (if h then Oct h5 h4 else Oct hB h0))
            else (if g then (if h then Oct h0 hF else Oct h2 hD) else (if h then Oct h9 h9 else Oct h4 h1)))
           else (if f
            then (if g then (if h then Oct h6 h8 else Oct h4 h2) else (if h then Oct hE h6 else Oct hB hF))
            else (if g then (if h then Oct h0 hD else Oct h8 h9) else (if h then Oct hA h1 else Oct h8 hC))))
          else (if e
           then (if f
            then (if g then (if h then Oct hD hF else Oct h2 h8) else (if h then Oct h5 h5 else Oct hC hE))
            else (if g then (if h then Oct hE h9 else Oct h8 h7) else (if h then Oct h1 hE else Oct h9 hB)))
           else (if f
            then (if g then (if h then Oct h9 h4 else Oct h8 hE) else (if h then Oct hD h9 else Oct h6 h9))
            else (if g then (if h then Oct h1 h1 else Oct h9 h8) else (if h then Oct hF h8 else Oct hE h1)))))
         else (if d
          then (if e
           then (if f
            then (if g then (if h then Oct h9 hE else Oct h1 hD) else (if h then Oct hC h1 else Oct h8 h6))
            else (if g then (if h then Oct hB h9 else Oct h5 h7) else (if h then Oct h3 h5 else Oct h6 h1)))
           else (if f
            then (if g then (if h then Oct h0 hE else Oct hF h6) else (if h then Oct h0 h3 else Oct h4 h8))
            else (if g then (if h then Oct h6 h6 else Oct hB h5) else (if h then Oct h3 hE else Oct h7 h0))))
          else (if e
           then (if f
            then (if g then (if h then Oct h8 hA else Oct h8 hB) else (if h then Oct hB hD else Oct h4 hB))
            else (if g then (if h then Oct h1 hF else Oct h7 h4) else (if h then Oct hD hD else Oct hE h8)))
           else (if f
            then (if g then (if h then Oct hC h6 else Oct hB h4) else (if h then Oct hA h6 else Oct h1 hC))
            else (if g then (if h then Oct h2 hE else Oct h2 h5) else (if h then Oct h7 h8 else Oct hB hA))))))
        else (if c
         then (if d
          then (if e
           then (if f
            then (if g then (if h then Oct h0 h8 else Oct hA hE) else (if h then Oct h7 hA else Oct h6 h5))
            else (if g then (if h then Oct hE hA else Oct hF h4) else (if h then Oct h5 h6 else Oct h6 hC)))
           else (if f
            then (if g then (if h then Oct hA h9 else Oct h4 hE) else (if h then Oct hD h5 else Oct h8 hD))
            else (if g then (if h then Oct h6 hD else Oct h3 h7) else (if h then Oct hC h8 else Oct hE h7))))
          else (if e
           then (if f
            then (if g then (if h then Oct h7 h9 else Oct hE h4) else (if h then Oct h9 h5 else Oct h9 h1))
            else (if g then (if h then Oct h6 h2 else Oct hA hC) else (if h then Oct hD h3 else Oct hC h2)))
           else (if f
            then (if g then (if h then Oct h5 hC else Oct h2 h4) else (if h then Oct h0 h6 else Oct h4 h9))
            else (if g then (if h then Oct h0 hA else Oct h3 hA) else (if h then Oct h3 h2 else Oct hE h0)))))
         else (if d
          then (if e
           then (if f
            then (if g then (if h then Oct hD hB else Oct h0 hB) else (if h then Oct h5 hE else Oct hD hE))
            else (if g then (if h then Oct h1 h4 else Oct hB h8) else (if h then Oct hE hE else Oct h4 h6)))
           else (if f
            then (if g then (if h then Oct h8 h8 else Oct h9 h0) else (if h then Oct h2 hA else Oct h2 h2))
            else (if g then (if h then Oct hD hC else Oct h4 hF) else (if h then Oct h8 h1 else Oct h6 h0))))
          else (if e
           then (if f
            then (if g then (if h then Oct h7 h3 else Oct h1 h9) else (if h then Oct h5 hD else Oct h6 h4))
            else (if g then (if h then Oct h3 hD else Oct h7 hE) else (if h then Oct hA h7 else Oct hC h4)))
           else (if f
            then (if g then (if h then Oct h1 h7 else Oct h4 h4) else (if h then Oct h9 h7 else Oct h5 hF))
            else (if g then (if h then Oct hE hC else Oct h1 h3) else (if h then Oct h0 hC else Oct hC hD)))))))
       else (if b
        then (if c
         then (if d
          then (if e
           then (if f
            then (if g then (if h then Oct hD h2 else Oct hF h3) else (if h then Oct hF hF else Oct h1 h0))
            else (if g then (if h then Oct h2 h1 else Oct hD hA) else (if h then Oct hB h6 else Oct hB hC)))
           else (if f
            then (if g then (if h then Oct hF h5 else Oct h3 h8) else (if h then Oct h9 hD else Oct h9 h2))
            else (if g then (if h then Oct h8 hF else Oct h4 h0) else (if h then Oct hA h3 else Oct h5 h1))))
          else (if e
           then (if f
            then (if g then (if h then Oct hA h8 else Oct h9 hF) else (if h then Oct h3 hC else Oct h5 h0))
            else (if g then (if h then Oct h7 hF else Oct h0 h2) else (if h then Oct hF h9 else Oct h4 h5)))
           else (if f
            then (if g then (if h then Oct h8 h5 else Oct h3 h3) else (if h then Oct h4 hD else Oct h4 h3))
            else (if g then (if h then Oct hF hB else Oct hA hA) else (if h then Oct hE hF else Oct hD h0)))))
         else (if d
          then (if e
           then (if f
            then (if g then (if h then Oct hC hF else Oct h5 h8) else (if h then Oct h4 hC else Oct h4 hA))
            else (if g then (if h then Oct h3 h9 else Oct hB hE) else (if h then Oct hC hB else Oct h6 hA)))
           else (if f
            then (if g then (if h then Oct h5 hB else Oct hB h1) else (if h then Oct hF hC else Oct h2 h0))
            else (if g then (if h then Oct hE hD else Oct h0 h0) else (if h then Oct hD h1 else Oct h5 h3))))
          else (if e
           then (if f
            then (if g then (if h then Oct h8 h4 else Oct h2 hF) else (if h then Oct hE h3 else Oct h2 h9))
            else (if g then (if h then Oct hB h3 else Oct hD h6) else (if h then Oct h3 hB else Oct h5 h2)))
           else (if f
            then (if g then (if h then Oct hA h0 else Oct h5 hA) else (if h then Oct h6 hE else Oct h1 hB))
            else (if g then (if h then Oct h1 hA else Oct h2 hC) else (if h then Oct h8 h3 else Oct h0 h9))))))
        else (if c
         then (if d
          then (if e
           then (if f
            then (if g then (if h then Oct h7 h5 else Oct hB h2) else (if h then Oct h2 h7 else Oct hE hB))
            else (if g then (if h then Oct hE h2 else Oct h8 h0) else (if h then Oct h1 h2 else Oct h0 h7)))
           else (if f
            then (if g then (if h then Oct h9 hA else Oct h0 h5) else (if h then Oct h9 h6 else Oct h1 h8))
            else (if g then (if h then Oct hC h3 else Oct h2 h3) else (if h then Oct hC h7 else Oct h0 h4))))
          else (if e
           then (if f
            then (if g then (if h then Oct h1 h5 else Oct h3 h1) else (if h then Oct hD h8 else Oct h7 h1))
            else (if g then (if h then Oct hF h1 else Oct hE h5) else (if h then Oct hA h5 else Oct h3 h4)))
           else (if f
            then (if g then (if h then Oct hC hC else Oct hF h7) else (if h then Oct h3 hF else Oct h3 h6))
            else (if g then (if h then Oct h2 h6 else Oct h9 h3) else (if h then Oct hF hD else Oct hB h7)))))
         else (if d
          then (if e
           then (if f
            then (if g then (if h then Oct hC h0 else Oct h7 h2) else (if h then Oct hA h4 else Oct h9 hC))
            else (if g then (if h then Oct hA hF else Oct hA h2) else (if h then Oct hD h4 else Oct hA hD)))
           else (if f
            then (if g then (if h then Oct hF h0 else Oct h4 h7) else (if h then Oct h5 h9 else Oct hF hA))
            else (if g then (if h then Oct h7 hD else Oct hC h9) else (if h then Oct h8 h2 else Oct hC hA))))
          else (if e
           then (if f
            then (if g then (if h then Oct h7 h6 else Oct hA hB) else (if h then Oct hD h7 else Oct hF hE))
            else (if g then (if h then Oct h2 hB else Oct h6 h7) else (if h then Oct h0 h1 else Oct h3 h0)))
           else (if f
            then (if g then (if h then Oct hC h5 else Oct h6 hF) else (if h then Oct h6 hB else Oct hF h2))
            else (if g then (if h then Oct h7 hB else Oct h7 h7) else (if h then Oct h7 hC else Oct h6 h3))))))))"

fun InvSubByte :: "octet \<Rightarrow> octet" where
  "InvSubByte (Oct (Nib a b c d) (Nib e f g h)) =
     (if a
       then (if b
        then (if c
         then (if d
          then (if e
           then (if f
            then (if g then (if h then Oct h7 hD else Oct h0 hC) else (if h then Oct h2 h1 else Oct h5 h5))
            else (if g then (if h then Oct h6 h3 else Oct h1 h4) else (if h then Oct h6 h9 else Oct hE h1)))
           else (if f
            then (if g then (if h then Oct h2 h6 else Oct hD h6) else (if h then Oct h7 h7 else Oct hB hA))
            else (if g then (if h then Oct h7 hE else Oct h0 h4) else (if h then Oct h2 hB else Oct h1 h7))))
          else (if e
           then (if f
            then (if g then (if h then Oct h6 h1 else Oct h9 h9) else (if h then Oct h5 h3 else Oct h8 h3))
            else (if g then (if h then Oct h3 hC else Oct hB hB) else (if h then Oct hE hB else Oct hC h8)))
           else (if f
            then (if g then (if h then Oct hB h0 else Oct hF h5) else (if h then Oct h2 hA else Oct hA hE))
            else (if g then (if h then Oct h4 hD else Oct h3 hB) else (if h then Oct hE h0 else Oct hA h0)))))
         else (if d
          then (if e
           then (if f
            then (if g then (if h then Oct hE hF else Oct h9 hC) else (if h then Oct hC h9 else Oct h9 h3))
            else (if g then (if h then Oct h9 hF else Oct h7 hA) else (if h then Oct hE h5 else Oct h2 hD)))
           else (if f
            then (if g then (if h then Oct h0 hD else Oct h4 hA) else (if h then Oct hB h5 else Oct h1 h9))
            else (if g then (if h then Oct hA h9 else Oct h7 hF) else (if h then Oct h5 h1 else Oct h6 h0))))
          else (if e
           then (if f
            then (if g then (if h then Oct h5 hF else Oct hE hC) else (if h then Oct h8 h0 else Oct h2 h7))
            else (if g then (if h then Oct h5 h9 else Oct h1 h0) else (if h then Oct h1 h2 else Oct hB h1)))
           else (if f
            then (if g then (if h then Oct h3 h1 else Oct hC h7) else (if h then Oct h0 h7 else Oct h8 h8))
            else (if g then (if h then Oct h3 h3 else Oct hA h8) else (if h then Oct hD hD else Oct h1 hF))))))
        else (if c
         then (if d
          then (if e
           then (if f
            then (if g then (if h then Oct hF h4 else Oct h5 hA) else (if h then Oct hC hD else Oct h7 h8))
            else (if g then (if h then Oct hF hE else Oct hC h0) else (if h then Oct hD hB else Oct h9 hA)))
           else (if f
            then (if g then (if h then Oct h2 h0 else Oct h7 h9) else (if h then Oct hD h2 else Oct hC h6))
            else (if g then (if h then Oct h4 hB else Oct h3 hE) else (if h then Oct h5 h6 else Oct hF hC))))
          else (if e
           then (if f
            then (if g then (if h then Oct h1 hB else Oct hB hE) else (if h then Oct h1 h8 else Oct hA hA))
            else (if g then (if h then Oct h0 hE else Oct h6 h2) else (if h then Oct hB h7 else Oct h6 hF)))
           else (if f
            then (if g then (if h then Oct h8 h9 else Oct hC h5) else (if h then Oct h2 h9 else Oct h1 hD))
            else (if g then (if h then Oct h7 h1 else Oct h1 hA) else (if h then Oct hF h1 else Oct h4 h7)))))
         else (if d
          then (if e
           then (if f
            then (if g then (if h then Oct h6 hE else Oct hD hF) else (if h then Oct h7 h5 else Oct h1 hC))
            else (if g then (if h then Oct hE h8 else Oct h3 h7) else (if h then Oct hF h9 else Oct hE h2)))
           else (if f
            then (if g then (if h then Oct h8 h5 else Oct h3 h5) else (if h then Oct hA hD else Oct hE h7))
            else (if g then (if h then Oct h2 h2 else Oct h7 h4) else (if h then Oct hA hC else Oct h9 h6))))
          else (if e
           then (if f
            then (if g then (if h then Oct h7 h3 else Oct hE h6) else (if h then Oct hB h4 else Oct hF h0))
            else (if g then (if h then Oct hC hE else Oct hC hF) else (if h then Oct hF h2 else Oct h9 h7)))
           else (if f
            then (if g then (if h then Oct hE hA else Oct hD hC) else (if h then Oct h6 h7 else Oct h4 hF))
            else (if g then (if h then Oct h4 h1 else Oct h1 h1) else (if h then Oct h9 h1 else Oct h3 hA)))))))
       else (if b
        then (if c
         then (if d
          then (if e
           then (if f
            then (if g then (if h then Oct h6 hB else Oct h8 hA) else (if h then Oct h1 h3 else Oct h0 h1))
            else (if g then (if h then Oct h0 h3 else Oct hB hD) else (if h then Oct hA hF else Oct hC h1)))
           else (if f
            then (if g then (if h then Oct h0 h2 else Oct h0 hF) else (if h then Oct h3 hF else Oct hC hA))
            else (if g then (if h then Oct h8 hF else Oct h1 hE) else (if h then Oct h2 hC else Oct hD h0))))
          else (if e
           then (if f
            then (if g then (if h then Oct h0 h6 else Oct h4 h5) else (if h then Oct hB h3 else Oct hB h8))
            else (if g then (if h then Oct h0 h5 else Oct h5 h8) else (if h then Oct hE h4 else Oct hF h7)))
           else (if f
            then (if g then (if h then Oct h0 hA else Oct hD h3) else (if h then Oct hB hC else Oct h8 hC))
            else (if g then (if h then Oct h0 h0 else Oct hA hB) else (if h then Oct hD h8 else Oct h9 h0)))))
         else (if d
          then (if e
           then (if f
            then (if g then (if h then Oct h8 h4 else Oct h9 hD) else (if h then Oct h8 hD else Oct hA h7))
            else (if g then (if h then Oct h5 h7 else Oct h4 h6) else (if h then Oct h1 h5 else Oct h5 hE)))
           else (if f
            then (if g then (if h then Oct hD hA else Oct hB h9) else (if h then Oct hE hD else Oct hF hD))
            else (if g then (if h then Oct h5 h0 else Oct h4 h8) else (if h then Oct h7 h0 else Oct h6 hC))))
          else (if e
           then (if f
            then (if g then (if h then Oct h9 h2 else Oct hB h6) else (if h then Oct h6 h5 else Oct h5 hD))
            else (if g then (if h then Oct hC hC else Oct h5 hC) else (if h then Oct hA h4 else Oct hD h4)))
           else (if f
            then (if g then (if h then Oct h1 h6 else Oct h9 h8) else (if h then Oct h6 h8 else Oct h8 h6))
            else (if g then (if h then Oct h6 h4 else Oct hF h6) else (if h then Oct hF h8 else Oct h7 h2))))))
        else (if c
         then (if d
          then (if e
           then (if f
            then (if g then (if h then Oct h2 h5 else Oct hD h1) else (if h then Oct h8 hB else Oct h6 hD))
            else (if g then (if h then Oct h4 h9 else Oct hA h2) else (if h then Oct h5 hB else Oct h7 h6)))
           else (if f
            then (if g then (if h then Oct hB h2 else Oct h2 h4) else (if h then Oct hD h9 else Oct h2 h8))
            else (if g then (if h then Oct h6 h6 else Oct hA h1) else (if h then Oct h2 hE else Oct h0 h8))))
          else (if e
           then (if f
            then (if g then (if h then Oct h4 hE else Oct hC h3) else (if h then Oct hF hA else Oct h4 h2))
            else (if g then (if h then Oct h0 hB else Oct h9 h5) else (if h then Oct h4 hC else Oct hE hE)))
           else (if f
            then (if g then (if h then Oct h3 hD else Oct h2 h3) else (if h then Oct hC h2 else Oct hA h6))
            else (if g then (if h then Oct h3 h2 else Oct h9 h4) else (if h then Oct h7 hB else Oct h5 h4)))))
         else (if d
          then (if e
           then (if f
            then (if g then (if h then Oct hC hB else Oct hE h9) else (if h then Oct hD hE else Oct hC h4))
            else (if g then (if h then Oct h4 h4 else Oct h4 h3) else (if h then Oct h8 hE else Oct h3 h4)))
           else (if f
            then (if g then (if h then Oct h8 h7 else Oct hF hF) else (if h then Oct h2 hF else Oct h9 hB))
            else (if g then (if h then Oct h8 h2 else Oct h3 h9) else (if h then Oct hE h3 else Oct h7 hC))))
          else (if e
           then (if f
            then (if g then (if h then Oct hF hB else Oct hD h7) else (if h then Oct hF h3 else Oct h8 h1))
            else (if g then (if h then Oct h9 hE else Oct hA h3) else (if h then Oct h4 h0 else Oct hB hF)))
           else (if f
            then (if g then (if h then Oct h3 h8 else Oct hA h5) else (if h then Oct h3 h6 else Oct h3 h0))
            else (if g then (if h then Oct hD h5 else Oct h6 hA) else (if h then Oct h0 h9 else Oct h5 h2))))))))"

subsubsection \<open>Key expansion\<close>

datatype word4 = W4 octet octet octet octet

fun wxor :: "word4 \<Rightarrow> word4 \<Rightarrow> word4" where
  "wxor (W4 a b c d) (W4 e f g h) = W4 (oxor a e) (oxor b f) (oxor c g) (oxor d h)"

fun SubWord :: "word4 \<Rightarrow> word4" where
  "SubWord (W4 a b c d) = W4 (SubByte a) (SubByte b) (SubByte c) (SubByte d)"

fun RotWord :: "word4 \<Rightarrow> word4" where
  "RotWord (W4 a b c d) = W4 b c d a"

definition Rcon :: "octet list" where
  "Rcon = [Oct h0 h1, Oct h0 h2, Oct h0 h4, Oct h0 h8, Oct h1 h0,
           Oct h2 h0, Oct h4 h0, Oct h8 h0, Oct h1 hB, Oct h3 h6]"

fun key_words :: "byte list \<Rightarrow> word4 list" where
  "key_words (a # b # c # d # rest) =
     W4 (to_octet a) (to_octet b) (to_octet c) (to_octet d) # key_words rest"
| "key_words _ = []"

text \<open>
  The words of the key schedule come in groups of Nk words, one group for each round
  constant. \<open>group_rest\<close> computes the words after the first of a group, latest
  first: each is the word Nk places before it, combined with the word just computed,
  which goes through \<open>SubWord\<close> at the fifth place of a group when Nk is 8.
\<close>

fun group_rest :: "word4 list \<Rightarrow> word4 list \<Rightarrow> bool list \<Rightarrow> word4 list" where
  "group_rest (t # acc) (w # ws) (f # fs) =
     group_rest (wxor w (if f then SubWord t else t) # t # acc) ws fs"
| "group_rest acc _ _ = acc"

definition next_group :: "bool \<Rightarrow> octet \<Rightarrow> word4 list \<Rightarrow> word4 list" where
  "next_group big rc prev =
     rev (group_rest
            [wxor (hd prev) (wxor (SubWord (RotWord (last prev))) (W4 rc (Oct h0 h0) (Oct h0 h0) (Oct h0 h0)))]
            (tl prev) [False, False, False, big, False, False, False])"

fun expand_groups :: "bool \<Rightarrow> word4 list \<Rightarrow> octet list \<Rightarrow> word4 list list" where
  "expand_groups big prev [] = [prev]"
| "expand_groups big prev (rc # rcs) = prev # expand_groups big (next_group big rc prev) rcs"

datatype state = State octet octet octet octet octet octet octet octet
                       octet octet octet octet octet octet octet octet

fun round_keys :: "word4 list \<Rightarrow> state list" where
  "round_keys (W4 a0 a1 a2 a3 # W4 b0 b1 b2 b3 # W4 c0 c1 c2 c3 # W4 d0 d1 d2 d3 # rest) =
     State a0 a1 a2 a3 b0 b1 b2 b3 c0 c1 c2 c3 d0 d1 d2 d3 # round_keys rest"
| "round_keys _ = []"

text \<open>The Nr + 1 = Nk + 7 round keys of a key of 4 * Nk bytes.\<close>

definition KeyExpansion :: "byte list \<Rightarrow> state list" where
  "KeyExpansion key =
     take (length (key_words key) + 7)
       (round_keys (concat (expand_groups (6 < length (key_words key)) (key_words key) Rcon)))"

subsubsection \<open>The inverse cipher\<close>

fun AddRoundKey :: "state \<Rightarrow> state \<Rightarrow> state" where
  "AddRoundKey (State s0 s1 s2 s3 s4 s5 s6 s7 s8 s9 s10 s11 s12 s13 s14 s15)
               (State k0 k1 k2 k3 k4 k5 k6 k7 k8 k9 k10 k11 k12 k13 k14 k15) =
     State (oxor s0 k0) (oxor s1 k1) (oxor s2 k2) (oxor s3 k3)
           (oxor s4 k4) (oxor s5 k5) (oxor s6 k6) (oxor s7 k7)
           (oxor s8 k8) (oxor s9 k9) (oxor s10 k10) (oxor s11 k11)
           (oxor s12 k12) (oxor s13 k13) (oxor s14 k14) (oxor s15 k15)"

fun InvShiftRows :: "state \<Rightarrow> state" where
  "InvShiftRows (State s0 s1 s2 s3 s4 s5 s6 s7 s8 s9 s10 s11 s12 s13 s14 s15) =
     State s0 s13 s10 s7 s4 s1 s14 s11 s8 s5 s2 s15 s12 s9 s6 s3"

fun InvSubBytes :: "state \<Rightarrow> state" where
  "InvSubBytes (State s0 s1 s2 s3 s4 s5 s6 s7 s8 s9 s10 s11 s12 s13 s14 s15) =
     State (InvSubByte s0) (InvSubByte s1) (InvSubByte s2) (InvSubByte s3)
           (InvSubByte s4) (InvSubByte s5) (InvSubByte s6) (InvSubByte s7)
           (InvSubByte s8) (InvSubByte s9) (InvSubByte s10) (InvSubByte s11)
           (InvSubByte s12) (InvSubByte s13) (InvSubByte s14) (InvSubByte s15)"

text \<open>
  \<open>gf_mults a\<close> holds the products of \<open>a\<close> by 9, 11, 13 and 14 in GF(2^8), built
  from \<open>a\<close>, \<open>2a\<close>, \<open>4a\<close> and \<open>8a\<close>.
\<close>

definition gf_mults3 :: "octet \<Rightarrow> octet \<Rightarrow> octet \<Rightarrow> octet \<Rightarrow> word4" where
  "gf_mults3 a b c d = W4 (oxor d a) (oxor (oxor d b) a) (oxor (oxor d c) a) (oxor (oxor d c) b)"

definition gf_mults2 :: "octet \<Rightarrow> octet \<Rightarrow> octet \<Rightarrow> word4" where
  "gf_mults2 a b c = gf_mults3 a b c (xtime c)"

definition gf_mults1 :: "octet \<Rightarrow> octet \<Rightarrow> word4" where
  "gf_mults1 a b = gf_mults2 a b (xtime b)"

definition gf_mults :: "octet \<Rightarrow> word4" where
  "gf_mults a = gf_mults1 a (xtime a)"

fun mix_column :: "word4 \<Rightarrow> word4 \<Rightarrow> word4 \<Rightarrow> word4 \<Rightarrow> word4" where
  "mix_column (W4 a9 a11 a13 a14) (W4 b9 b11 b13 b14) (W4 c9 c11 c13 c14) (W4 d9 d11 d13 d14) =
     W4 (oxor (oxor a14 b11) (oxor c13 d9))
        (oxor (oxor a9 b14) (oxor c11 d13))
        (oxor (oxor a13 b9) (oxor c14 d11))
        (oxor (oxor a11 b13) (oxor c9 d14))"

definition InvMixColumn :: "octet \<Rightarrow> octet \<Rightarrow> octet \<Rightarrow> octet \<Rightarrow> word4" where
  "InvMixColumn a b c d = mix_column (gf_mults a) (gf_mults b) (gf_mults c) (gf_mults d)"

fun of_columns :: "word4 \<Rightarrow> word4 \<Rightarrow> word4 \<Rightarrow> word4 \<Rightarrow> state" where
  "of_columns (W4 a0 a1 a2 a3) (W4 b0 b1 b2 b3) (W4 c0 c1 c2 c3) (W4 d0 d1 d2 d3) =
     State a0 a1 a2 a3 b0 b1 b2 b3 c0 c1 c2 c3 d0 d1 d2 d3"

fun InvMixColumns :: "state \<Rightarrow> state" where
  "InvMixColumns (State s0 s1 s2 s3 s4 s5 s6 s7 s8 s9 s10 s11 s12 s13 s14 s15) =
     of_columns (InvMixColumn s0 s1 s2 s3) (InvMixColumn s4 s5 s6 s7)
                (InvMixColumn s8 s9 s10 s11) (InvMixColumn s12 s13 s14 s15)"

text \<open>The rounds, given the round keys from the last but one down to the first.\<close>

fun inv_rounds :: "state \<Rightarrow> state list \<Rightarrow> state" where
  "inv_rounds s [] = s"
| "inv_rounds s [k] = AddRoundKey (InvSubBytes (InvShiftRows s)) k"
| "inv_rounds s (k # ks) =
     inv_rounds (InvMixColumns (AddRoundKey (InvSubBytes (InvShiftRows s)) k)) ks"

fun InvCipher :: "state list \<Rightarrow> state \<Rightarrow> state" where
  "InvCipher [] s = s"
| "InvCipher (k # ks) s = inv_rounds (AddRoundKey s k) ks"

definition to_state :: "byte list \<Rightarrow> state" where
  "to_state b =
     State (to_octet (b ! 0)) (to_octet (b ! 1)) (to_octet (b ! 2)) (to_octet (b ! 3))
           (to_octet (b ! 4)) (to_octet (b ! 5)) (to_octet (b ! 6)) (to_octet (b ! 7))
           (to_octet (b ! 8)) (to_octet (b ! 9)) (to_octet (b ! 10)) (to_octet (b ! 11))
           (to_octet (b ! 12)) (to_octet (b ! 13)) (to_octet (b ! 14)) (to_octet (b ! 15))"

fun of_state :: "state \<Rightarrow> byte list" where
  "of_state (State s0 s1 s2 s3 s4 s5 s6 s7 s8 s9 s10 s11 s12 s13 s14 s15) =
     [of_octet s0, of_octet s1, of_octet s2, of_octet s3,
      of_octet s4, of_octet s5, of_octet s6, of_octet s7,
      of_octet s8, of_octet s9, of_octet s10, of_octet s11,
      of_octet s12, of_octet s13, of_octet s14, of_octet s15]"

text \<open>
  \<open>aes_decrypt key src\<close> is \<open>block.Decrypt(dst, src)\<close> for the block that
  \<open>aes.NewCipher(key)\<close> returns: the decryption of the 16 bytes of \<open>src\<close>. The
  lemmas \<open>aes_decrypt_fips197_c1\<close> to \<open>aes_decrypt_fips197_c3\<close> below check it on the
  example vectors of the standard.
\<close>

definition aes_decrypt :: "byte list \<Rightarrow> byte list \<Rightarrow> byte list" where
  "aes_decrypt key src = of_state (InvCipher (rev (KeyExpansion key)) (to_state src))"

text \<open>\<open>aes.NewCipher\<close> accepts keys of 16, 24 and 32 bytes.\<close>

definition NewCipher :: "byte list \<Rightarrow> error + byte list" where
  "NewCipher key =
     (if length key = 16 \<or> length key = 24 \<or> length key = 32 then Inr key
      else Inl (KeySizeError (length key)))"

text \<open>
  \<open>CryptBlocks\<close> of the decrypter that \<open>cipher.NewCBCDecrypter(block, iv)\<close> returns:
  each block is decrypted and combined with the ciphertext block before it (the
  initialisation vector for the first), and the last ciphertext block is the vector of
  the next call. The result is the plaintext and that vector.
\<close>

primrec cbc_blocks :: "byte list \<Rightarrow> nat \<Rightarrow> byte list \<Rightarrow> byte list \<Rightarrow> byte list" where
  "cbc_blocks key 0 iv src = []"
| "cbc_blocks key (Suc n) iv src =
     map2 (XOR) (aes_decrypt key (take 16 src)) iv @ cbc_blocks key n (take 16 src) (drop 16 src)"

definition CryptBlocks :: "byte list \<Rightarrow> byte list \<Rightarrow> byte list \<Rightarrow> (byte list \<times> byte list) outcome" where
  "CryptBlocks key iv src =
     (if length src mod 16 \<noteq> 0 then Panics ''crypto/cipher: input not full blocks''
      else if src = [] then Returns ([], iv)
      else Returns (cbc_blocks key (length src div 16) iv src, drop (length src - 16) src))"

text \<open>\<open>binary.BigEndian.Uint64\<close>.\<close>

definition BigEndian_Uint64 :: "byte list \<Rightarrow> 64 word" where
  "BigEndian_Uint64 b =
     ucast (b ! 7) OR push_bit 8 (ucast (b ! 6)) OR push_bit 16 (ucast (b ! 5))
     OR push_bit 24 (ucast (b ! 4)) OR push_bit 32 (ucast (b ! 3)) OR push_bit 40 (ucast (b ! 2))
     OR push_bit 48 (ucast (b ! 1)) OR push_bit 56 (ucast (b ! 0))"

text \<open>
  The two decompressors are parameters of the model. \<open>flate_Reader f\<close> and
  \<open>bzip2_Reader f\<close> are what \<open>io.Copy\<close> gets from \<open>flate.NewReader\<close> and
  \<open>bzip2.NewReader\<close> on a file of content \<open>f\<close>: the bytes decompressed, and the error
  that ended the stream, if any.
\<close>

record codecs =
  flate_Reader :: "byte list \<Rightarrow> byte list \<times> error option"
  bzip2_Reader :: "byte list \<Rightarrow> byte list \<times> error option"

text \<open>
  \<open>bufio.Reader\<close> over the ciphered file: the bytes buffered and not yet read, and
  the offset of the file. The buffer holds 4096 bytes; a read into a smaller slice
  fills the empty buffer with one read of the file and copies from it.
\<close>

record reader =
  rbuf :: "byte list"
  rpos :: nat

definition reader_Read :: "byte list \<Rightarrow> reader \<Rightarrow> nat \<Rightarrow> (error + byte list) \<times> reader" where
  "reader_Read data r n =
     (if rbuf r = []
      then (let chunk = take 4096 (drop (rpos r) data) in
            if chunk = [] then (Inl EOF, r)
            else (Inr (take n chunk), \<lparr>rbuf = drop n chunk, rpos = rpos r + length chunk\<rparr>))
      else (Inr (take n (rbuf r)), r\<lparr>rbuf := drop n (rbuf r)\<rparr>))"

text \<open>
  \<open>bufio.Writer\<close> over a file: the bytes that have reached the file, and the bytes
  still in the buffer of 4096 bytes.
\<close>

record writer =
  flushed :: "byte list"
  pending :: "byte list"

definition writer_Write :: "writer \<Rightarrow> byte list \<Rightarrow> writer" where
  "writer_Write w p =
     (if length p > 4096 - length (pending w)
      then (if pending w = [] then w\<lparr>flushed := flushed w @ p\<rparr>
            else if length (drop (4096 - length (pending w)) p) > 4096
            then \<lparr>flushed = flushed w @ pending w @ p, pending = []\<rparr>
            else \<lparr>flushed = flushed w @ pending w @ take (4096 - length (pending w)) p,
                  pending = drop (4096 - length (pending w)) p\<rparr>)
      else w\<lparr>pending := pending w @ p\<rparr>)"

definition writer_Flush :: "writer \<Rightarrow> writer" where
  "writer_Flush w = \<lparr>flushed = flushed w @ pending w, pending = []\<rparr>"

definition NewWriter :: writer where
  "NewWriter = \<lparr>flushed = [], pending = []\<rparr>"

subsection \<open>The MD5 digest (RFC 1321), as crypto/md5 computes it\<close>

text \<open>
  The four registers of the digest are numbers below \<open>2 ^ 32\<close>; sums are taken modulo
  \<open>2 ^ 32\<close>. \<open>rotl32 x s\<close> turns the 32 bits of \<open>x\<close> left by \<open>s\<close> places, for \<open>s\<close> from
  1 to 31.
\<close>

definition add32 :: "nat \<Rightarrow> nat \<Rightarrow> nat" where
  "add32 x y = (x + y) mod 4294967296"

definition not32 :: "nat \<Rightarrow> nat" where
  "not32 x = 4294967295 - x"

definition rotl32 :: "nat \<Rightarrow> nat \<Rightarrow> nat" where
  "rotl32 x s = (x * 2 ^ s) mod 4294967296 + x div 2 ^ (32 - s)"

text \<open>The auxiliary functions F, G, H and I of the four rounds.\<close>

datatype md5_round = FF | GG | HH | II

fun md5_aux :: "md5_round \<Rightarrow> nat \<Rightarrow> nat \<Rightarrow> nat \<Rightarrow> nat" where
  "md5_aux FF x y z = (x AND y) OR (not32 x AND z)"
| "md5_aux GG x y z = (x AND z) OR (y AND not32 z)"
| "md5_aux HH x y z = x XOR y XOR z"
| "md5_aux II x y z = y XOR (x OR not32 z)"

text \<open>
  The 64 steps: the round, the index of the word of the block, the number of
  places of the turn, and the constant, the integer part of
  \<open>2 ^ 32 * abs (sin i)\<close> for the step number \<open>i\<close> from 1 to 64.
\<close>

definition md5_table :: "(md5_round \<times> nat \<times> nat \<times> nat) list" where
  "md5_table =
     [(FF, 0, 7, 3614090360), (FF, 1, 12, 3905402710),
      (FF, 2, 17, 606105819), (FF, 3, 22, 3250441966),
      (FF, 4, 7, 4118548399), (FF, 5, 12, 1200080426),
      (FF, 6, 17, 2821735955), (FF, 7, 22, 4249261313),
      (FF, 8, 7, 1770035416), (FF, 9, 12, 2336552879),
      (FF, 10, 17, 4294925233), (FF, 11, 22, 2304563134),
      (FF, 12, 7, 1804603682), (FF, 13, 12, 4254626195),
      (FF, 14, 17, 2792965006), (FF, 15, 22, 1236535329),
      (GG, 1, 5, 4129170786), (GG, 6, 9, 3225465664),
      (GG, 11, 14, 643717713), (GG, 0, 20, 3921069994),
      (GG, 5, 5, 3593408605), (GG, 10, 9, 38016083),
      (GG, 15, 14, 3634488961), (GG, 4, 20, 3889429448),
      (GG, 9, 5, 568446438), (GG, 14, 9, 3275163606),
      (GG, 3, 14, 4107603335), (GG, 8, 20, 1163531501),
      (GG, 13, 5, 2850285829), (GG, 2, 9, 4243563512),
      (GG, 7, 14, 1735328473), (GG, 12, 20, 2368359562),
      (HH, 5, 4, 4294588738), (HH, 8, 11, 2272392833),
      (HH, 11, 16, 1839030562), (HH, 14, 23, 4259657740),
      (HH, 1, 4, 2763975236), (HH, 4, 11, 1272893353),
      (HH, 7, 16, 4139469664), (HH, 10, 23, 3200236656),
      (HH, 13, 4, 681279174), (HH, 0, 11, 3936430074),
      (HH, 3, 16, 3572445317), (HH, 6, 23, 76029189),
      (HH, 9, 4, 3654602809), (HH, 12, 11, 3873151461),
      (HH, 15, 16, 530742520), (HH, 2, 23, 3299628645),
      (II, 0, 6, 4096336452), (II, 7, 10, 1126891415),
      (II, 14, 15, 2878612391), (II, 5, 21, 4237533241),
      (II, 12, 6, 1700485571), (II, 3, 10, 2399980690),
      (II, 10, 15, 4293915773), (II, 1, 21, 2240044497),
      (II, 8, 6, 1873313359), (II, 15, 10, 4264355552),
      (II, 6, 15, 2734768916), (II, 13, 21, 1309151649),
      (II, 4, 6, 4149444226), (II, 11, 10, 3174756917),
      (II, 2, 15, 718787259), (II, 9, 21, 3951481745)]"

text \<open>
  One step replaces the registers \<open>(a, b, c, d)\<close> by
  \<open>(d, b + ((a + f b c d + X k + t) <<< s), b, c)\<close>, for the words \<open>X\<close> of the block.
\<close>

fun md5_steps :: "(md5_round \<times> nat \<times> nat \<times> nat) list \<Rightarrow> nat list \<Rightarrow> nat \<times> nat \<times> nat \<times> nat
                  \<Rightarrow> nat \<times> nat \<times> nat \<times> nat" where
  "md5_steps [] X r = r"
| "md5_steps ((f, k, s, t) # ops) X (a, b, c, d) =
     md5_steps ops X (d, add32 b (rotl32 (add32 (add32 (add32 a (md5_aux f b c d)) (X ! k)) t) s), b, c)"

text \<open>The words of a block, least significant byte first.\<close>

fun le_words :: "byte list \<Rightarrow> nat list" where
  "le_words (b0 # b1 # b2 # b3 # bs) =
     (unat b0 + 256 * unat b1 + 65536 * unat b2 + 16777216 * unat b3) # le_words bs"
| "le_words bs = []"

definition le_bytes :: "nat \<Rightarrow> byte list" where
  "le_bytes x = [of_nat (x mod 256), of_nat (x div 256 mod 256),
                 of_nat (x div 65536 mod 256), of_nat (x div 16777216 mod 256)]"

fun md5_add :: "nat \<times> nat \<times> nat \<times> nat \<Rightarrow> nat \<times> nat \<times> nat \<times> nat \<Rightarrow> nat \<times> nat \<times> nat \<times> nat" where
  "md5_add (a, b, c, d) (a', b', c', d') = (add32 a a', add32 b b', add32 c c', add32 d d')"

definition md5_block :: "nat \<times> nat \<times> nat \<times> nat \<Rightarrow> byte list \<Rightarrow> nat \<times> nat \<times> nat \<times> nat" where
  "md5_block r blk = md5_add r (md5_steps md5_table (le_words blk) r)"

function md5_blocks :: "nat \<times> nat \<times> nat \<times> nat \<Rightarrow> byte list \<Rightarrow> nat \<times> nat \<times> nat \<times> nat" where
  "md5_blocks r m = (if m = [] then r else md5_blocks (md5_block r (take 64 m)) (drop 64 m))"
  by pat_completeness auto

termination md5_blocks
  by (relation "measure (\<lambda>(r, m). length m)") auto

declare md5_blocks.simps [simp del]

text \<open>
  The message is followed by the byte 128, by zero bytes up to 56 bytes modulo 64, and
  by its length in bits as eight bytes, least significant first.
\<close>

definition md5_pad :: "byte list \<Rightarrow> byte list" where
  "md5_pad m = m @ [128] @ replicate ((119 - length m mod 64) mod 64) 0
               @ le_bytes ((8 * length m) mod 4294967296)
               @ le_bytes ((8 * length m) div 4294967296 mod 4294967296)"

fun md5_out :: "nat \<times> nat \<times> nat \<times> nat \<Rightarrow> byte list" where
  "md5_out (a, b, c, d) = le_bytes a @ le_bytes b @ le_bytes c @ le_bytes d"

text \<open>
  \<open>md5_Sum x\<close> is the digest of the bytes \<open>x\<close> written to \<open>md5.New()\<close> since its last
  reset, 16 bytes (\<open>length_md5_Sum\<close>). The lemmas \<open>md5_Sum_rfc1321_empty\<close>,
  \<open>md5_Sum_rfc1321_abc\<close> and \<open>md5_Sum_rfc1321_digits\<close> below check it on the test
  suite of the standard.
\<close>

definition md5_Sum :: "byte list \<Rightarrow> byte list" where
  "md5_Sum x = md5_out (md5_blocks (1732584193, 4023233417, 2562383102, 271733878) (md5_pad x))"

section \<open>Padding removal\<close>

text \<open>
  \<open>PKCS5Trimming\<close>: \<open>src[srcLen-1]\<close> panics on an empty slice; otherwise the last byte
  is the padding length.
\<close>

definition PKCS5Trimming :: "byte list \<Rightarrow> int \<Rightarrow> (error + byte list) outcome" where
  "PKCS5Trimming src blockSize =
     (let srcLen = int (length src) in
      if src = [] then Panics ''index out of range [-1]''
      else
        let paddingLen = uint (last src) in
        if paddingLen \<ge> srcLen \<or> paddingLen > blockSize
        then Returns (Inl (Errorf_w ''%w: invalid padding, maybe incorrect password'' ErrDecipher))
        else Returns (Inr (take (nat (srcLen - paddingLen)) src)))"

section \<open>Format detection\<close>

text \<open>
  \<open>io.ReadFull\<close> on a file whose content is \<open>data\<close>, read from offset \<open>pos\<close> into a
  buffer of \<open>n\<close> bytes: the bytes read, and \<open>EOF\<close> when none could be read or
  \<open>ErrUnexpectedEOF\<close> when fewer than \<open>n\<close> could.
\<close>

definition ReadFull :: "byte list \<Rightarrow> nat \<Rightarrow> nat \<Rightarrow> byte list \<times> error option" where
  "ReadFull data pos n =
     (let avail = drop pos data in
      if n \<le> length avail then (take n avail, None)
      else if avail = [] then ([], Some EOF)
      else (avail, Some ErrUnexpectedEOF))"

text \<open>
  \<open>checkCipheredFile\<close> reads the freshly opened file from offset 0. Every later access
  to the file starts with an absolute seek, so the offset it leaves is not returned.
\<close>

definition checkCipheredFile :: "byte list \<Rightarrow> fileType" where
  "checkCipheredFile data =
     (let (magic, err) = ReadFull data 0 8 in
      if err \<noteq> None \<or> length magic < 8
      then \<lparr>compressed = False, encryptVersion = -1\<rparr>
      else if magic = OpenSSLPrefix
      then \<lparr>compressed = False, encryptVersion = 0\<rparr>
      else if magic = QNAPFilePrefixV1Bytes
      then \<lparr>compressed = False, encryptVersion = 1\<rparr>
      else if magic = QNAPFilePrefixV2Bytes
      then
        (let (compressOptions, err2) = ReadFull data 8 2 in
         if length compressOptions < 2 \<or> err2 \<noteq> None
         then \<lparr>compressed = False, encryptVersion = -1\<rparr>
         else \<lparr>compressed = (compressOptions ! 1 = 1), encryptVersion = 2\<rparr>)
      else \<lparr>compressed = False, encryptVersion = -1\<rparr>)"

section \<open>Files and failures of the operating system\<close>

text \<open>
  One call of \<open>DecipherFile\<close> touches three files: the ciphered file named by
  \<open>CipheredFileName\<close>, the plain file named by \<open>PlainFileName\<close>, and the temporary
  file, whose name is that of the plain file followed by \<open>.tmp\<close>. The three names are
  taken to name three different files. \<open>cipher_data\<close> is the content of the first;
  \<open>plain_data\<close> and \<open>tmp_data\<close> are the contents of the other two, \<open>None\<close> for a
  file that does not exist.
\<close>

record world =
  cipher_data :: "byte list"
  plain_data :: "byte list option"
  tmp_data :: "byte list option"

text \<open>
  The calls of package os that can fail, each with the error it returns if it does:
  \<open>os.Open\<close> of the ciphered file, \<open>os.Create\<close> of the plain and of the temporary
  file, \<open>Seek\<close> on the ciphered file (by the offset sought) and \<open>Seek(0, 0)\<close> on the
  temporary file. Reads end at the end of the file and writes succeed.
\<close>

record faults =
  open_cipher :: "error option"
  create_plain :: "error option"
  create_tmp :: "error option"
  seek_cipher :: "nat \<Rightarrow> error option"
  seek_tmp :: "error option"

text \<open>Bytes written to the plain file, which \<open>DecipherFile\<close> has created empty.\<close>

definition write_plain :: "world \<Rightarrow> byte list \<Rightarrow> world" where
  "write_plain s bs =
     s\<lparr>plain_data := Some ((case plain_data s of None \<Rightarrow> [] | Some p \<Rightarrow> p) @ bs)\<rparr>"

section \<open>evb.go: EVPBytesToKey\<close>

text \<open>
  One turn of the outer loop digests the previous digest (from the second turn on), the
  data and the first eight bytes of the salt, digests the result again \<open>count - 1\<close>
  times, and copies digest bytes into the key and then into the vector, as many as
  each still lacks. \<open>key\<close> and \<open>iv\<close> are the bytes copied so far, \<open>nkey\<close> and
  \<open>niv\<close> the numbers of bytes missing. The loop ends when both are zero; with a
  digest of no bytes it never ends, and the result is \<open>None\<close>. The slice \<open>salt[:8]\<close>
  panics on a salt of fewer than eight bytes (the salt of the caller is made with
  eight). \<open>salt8\<close> is the parameter \<open>salt\<close> of the source, and \<open>None\<close> is nil.
\<close>

partial_function (option) EVP_loop ::
  "(byte list \<Rightarrow> byte list) \<Rightarrow> byte list option \<Rightarrow> byte list \<Rightarrow> nat \<Rightarrow> byte list \<Rightarrow> nat
   \<Rightarrow> byte list \<Rightarrow> byte list \<Rightarrow> nat \<Rightarrow> nat \<Rightarrow> (byte list \<times> byte list) outcome option" where
  "EVP_loop md salt8 data count mdBuf addmd key iv nkey niv =
     (if (case salt8 of None \<Rightarrow> False | Some sl \<Rightarrow> length sl < 8)
      then Some (Panics ''slice bounds out of range'')
      else
        (let mdBuf1 = md ((if addmd > 0 then mdBuf else []) @ data
                          @ (case salt8 of None \<Rightarrow> [] | Some sl \<Rightarrow> take 8 sl));
             mdBuf2 = (md ^^ (count - 1)) mdBuf1;
             k = (if nkey > 0 then min nkey (length mdBuf2) else 0);
             v = (if niv > 0 \<and> k \<noteq> length mdBuf2 then min niv (length mdBuf2 - k) else 0)
         in if nkey - k = 0 \<and> niv - v = 0
            then Some (Returns (key @ take k mdBuf2, iv @ take v (drop k mdBuf2)))
            else EVP_loop md salt8 data count mdBuf2 (addmd + 1)
                   (key @ take k mdBuf2) (iv @ take v (drop k mdBuf2)) (nkey - k) (niv - v)))"

definition EVPBytesToKey ::
  "nat \<Rightarrow> nat \<Rightarrow> (byte list \<Rightarrow> byte list) \<Rightarrow> byte list option \<Rightarrow> byte list option \<Rightarrow> nat
   \<Rightarrow> (byte list \<times> byte list) outcome option" where
  "EVPBytesToKey keyLen ivLen md salt8 data count =
     (case data of
        None \<Rightarrow> Some (Returns (replicate keyLen 0, replicate ivLen 0))
      | Some d \<Rightarrow> EVP_loop md salt8 d count [] 0 [] [] keyLen ivLen)"

section \<open>decipher.go: the streaming decryption\<close>

text \<open>
  The loop of \<open>doDecipher\<close>. Its state is the reader, the vector of the CBC decrypter,
  the writer and the count of bytes written, a \<open>uint64\<close>. The result is the writer as
  the loop leaves it and what \<open>doDecipher\<close> returns.
\<close>

function decipher_loop ::
  "byte list \<Rightarrow> byte list \<Rightarrow> reader \<Rightarrow> byte list \<Rightarrow> writer \<Rightarrow> 64 word
   \<Rightarrow> writer \<times> (64 word \<times> error option) outcome" where
  "decipher_loop key data r iv w bytesWritten =
     (case reader_Read data r 256 of
        (Inl err, r') \<Rightarrow> (w, Returns (bytesWritten, Some (Errorf_wv ''%w: %v'' ErrDecipher err)))
      | (Inr encrypted, r') \<Rightarrow>
          if length encrypted < 256
          then
            (if length encrypted mod 16 \<noteq> 0
             then (w, Returns (bytesWritten, Some (Errorf_w ''%w: invalid blocksize'' ErrDecipher)))
             else
               (case CryptBlocks key iv encrypted of
                  Panics m \<Rightarrow> (w, Panics m)
                | Returns (decrypted, iv') \<Rightarrow>
                    (case PKCS5Trimming decrypted 16 of
                       Panics m \<Rightarrow> (w, Panics m)
                     | Returns (Inl err) \<Rightarrow>
                         (w, Returns (bytesWritten, Some (Errorf_wv ''%w: %v'' ErrDecipher err)))
                     | Returns (Inr trimmed) \<Rightarrow>
                         (writer_Flush (writer_Write w trimmed),
                          Returns (bytesWritten + of_nat (length trimmed), None)))))
          else
            (case CryptBlocks key iv encrypted of
               Panics m \<Rightarrow> (w, Panics m)
             | Returns (decrypted, iv') \<Rightarrow>
                 decipher_loop key data r' iv' (writer_Write w decrypted)
                   (bytesWritten + of_nat (length decrypted))))"
  by pat_completeness auto
termination
proof (relation "measure (\<lambda>(key, data, r, iv, w, b). length (rbuf r) + (length data - rpos r))")
  show "wf (measure (\<lambda>(key, data, r, iv, w, b). length (rbuf r) + (length data - rpos r)))"
    by simp
next
  fix key data :: "byte list" and r :: reader and iv :: "byte list" and w :: writer
    and bytesWritten :: "64 word" and x :: "error + byte list" and y :: reader
    and b xa ya :: "byte list"
  assume rd: "(x, y) = reader_Read data r 256" "x = Inr b"
    and full: "\<not> length b < 256"
  from rd have eq: "reader_Read data r 256 = (Inr b, y)" by simp
  have "length (rbuf y) + (length data - rpos y) < length (rbuf r) + (length data - rpos r)"
  proof (cases "rbuf r = []")
    case True
    with eq have enc: "b = take 256 (take 4096 (drop (rpos r) data))"
      and y: "y = \<lparr>rbuf = drop 256 (take 4096 (drop (rpos r) data)),
                   rpos = rpos r + length (take 4096 (drop (rpos r) data))\<rparr>"
      by (auto simp: reader_Read_def Let_def split: if_splits)
    from full enc have "256 \<le> length (take 4096 (drop (rpos r) data))" by simp
    with True y show ?thesis by auto
  next
    case False
    with eq have enc: "b = take 256 (rbuf r)" and y: "y = r\<lparr>rbuf := drop 256 (rbuf r)\<rparr>"
      by (auto simp: reader_Read_def)
    from full enc have "256 \<le> length (rbuf r)" by simp
    with y show ?thesis by simp
  qed
  then show "((key, data, y, ya, writer_Write w xa, bytesWritten + of_nat (length xa)),
              (key, data, r, iv, w, bytesWritten))
             \<in> measure (\<lambda>(key, data, r, iv, w, b). length (rbuf r) + (length data - rpos r))"
    by simp
qed

declare decipher_loop.simps [simp del]

text \<open>
  \<open>doDecipher\<close> of a decipher whose file type is \<open>ftype\<close> and whose header is
  \<open>hdr\<close>, on a ciphered file of content \<open>data\<close> at offset \<open>pos\<close>, through a new
  reader, into the writer \<open>w\<close>.
\<close>

definition doDecipher ::
  "faults \<Rightarrow> fileType \<Rightarrow> encryptHeader \<Rightarrow> byte list \<Rightarrow> nat \<Rightarrow> writer
   \<Rightarrow> writer \<times> (64 word \<times> error option) outcome" where
  "doDecipher flt ftype hdr data pos w =
     (case (if encryptVersion ftype = 2
            then (case seek_cipher flt HeaderV2Length of
                    Some err \<Rightarrow> Inl err
                  | None \<Rightarrow> Inr HeaderV2Length)
            else Inr pos) of
        Inl err \<Rightarrow> (w, Returns (0, Some err))
      | Inr pos' \<Rightarrow>
          (case NewCipher (ckey hdr) of
             Inl err \<Rightarrow> (w, Returns (0, Some err))
           | Inr key \<Rightarrow>
               if length (salt hdr) \<noteq> 16
               then (w, Panics ''cipher.NewCBCDecrypter: IV length must equal block size'')
               else decipher_loop key data \<lparr>rbuf = [], rpos = pos'\<rparr> (salt hdr) w 0))"

section \<open>decipher.go: the header of version 2\<close>

text \<open>
  The first two statements after the seek: \<open>32/len(*password)\<close> panics on the empty
  password, and the slice \<open>[0:32]\<close> of the repeated password panics if that has fewer
  than 32 bytes.
\<close>

definition stretch_password :: "byte list \<Rightarrow> byte list outcome" where
  "stretch_password pw =
     (if length pw = 0 then Panics ''integer divide by zero''
      else
        let iter = 1 + 32 div length pw;
            repeated = concat (replicate iter pw)
        in if length repeated < 32 then Panics ''slice bounds out of range''
           else Returns (take 32 repeated))"

text \<open>The 64 bytes that the loop of four \<open>block.Decrypt\<close> calls leaves in \<open>out\<close>.\<close>

definition decrypt_header_blocks :: "byte list \<Rightarrow> byte list \<Rightarrow> byte list" where
  "decrypt_header_blocks key inb =
     concat (map (\<lambda>i. aes_decrypt key (take 16 (drop (i * 16) inb))) [0, 1, 2, 3])"

text \<open>
  \<open>password\<close> is the pointer that \<open>doDecipherV2\<close> passes: \<open>None\<close> is the nil
  pointer.
\<close>

definition decipherV2Header ::
  "faults \<Rightarrow> byte list \<Rightarrow> byte list option \<Rightarrow> (error + encryptHeader) outcome" where
  "decipherV2Header flt data password =
     (case seek_cipher flt 16 of
        Some err \<Rightarrow> Returns (Inl (Errorf_wv ''%w: %v'' ErrDecipher err))
      | None \<Rightarrow>
          (case password of
             None \<Rightarrow> Panics ''invalid memory address or nil pointer dereference''
           | Some pw \<Rightarrow>
               (case stretch_password pw of
                  Panics m \<Rightarrow> Panics m
                | Returns passwordFinal \<Rightarrow>
                    (case NewCipher passwordFinal of
                       Inl err \<Rightarrow> Returns (Inl err)
                     | Inr key \<Rightarrow>
                         (case ReadFull data 16 64 of
                            (inb, err) \<Rightarrow>
                              if length inb < 64
                              then Returns (Inl (Errorf_w
                                     ''%w: failed to read file header (end of stream)'' ErrDecipher))
                              else
                                (case err of
                                   Some e \<Rightarrow> Returns (Inl e)
                                 | None \<Rightarrow>
                                     Returns (Inr \<lparr>size_field =
                                                     BigEndian_Uint64
                                                       (take 8 (drop 56 (decrypt_header_blocks key inb))),
                                                   ckey = take 32 (drop 8 (decrypt_header_blocks key inb)),
                                                   salt = take 16 (drop 40 (decrypt_header_blocks key inb))\<rparr>)))))))"

section \<open>decipher.go: the two formats\<close>

text \<open>
  \<open>doDecipherV2\<close>. \<open>password\<close> is the package variable of main.go, not the field of
  the decipher. In the compressed case the error of \<open>doDecipher\<close> is overwritten by
  the result of the seek on the temporary file. The temporary file holds what the
  writer of \<open>doDecipher\<close> has flushed. \<open>io.Copy\<close> into a new \<open>bufio.Writer\<close> over
  the plain file goes through the \<open>ReadFrom\<close> of the file (Go 1.15, the version of
  the Dockerfile), so the decompressed bytes reach the plain file.
\<close>

definition doDecipherV2 ::
  "codecs \<Rightarrow> faults \<Rightarrow> fileType \<Rightarrow> byte list option \<Rightarrow> world
   \<Rightarrow> (64 word \<times> error option) outcome \<times> world" where
  "doDecipherV2 lib flt ftype password s =
     (case decipherV2Header flt (cipher_data s) password of
        Panics m \<Rightarrow> (Panics m, s)
      | Returns (Inl err) \<Rightarrow> (Returns (0, Some err), s)
      | Returns (Inr hdr) \<Rightarrow>
          if compressed ftype
          then
            (case create_tmp flt of
               Some err \<Rightarrow>
                 (Returns (0, Some (Errorf_wv ''%w: cannot create tmp file %s (%v)'' ErrDecipher err)), s)
             | None \<Rightarrow>
                 (case doDecipher flt ftype hdr (cipher_data s) 80 NewWriter of
                    (w, Panics m) \<Rightarrow> (Panics m, s\<lparr>tmp_data := Some (flushed w)\<rparr>)
                  | (w, Returns (bytesWritten, err)) \<Rightarrow>
                      (case seek_tmp flt of
                         Some e \<Rightarrow>
                           (Returns (0, Some (Errorf_w ''%w'' e)), s\<lparr>tmp_data := Some (flushed w)\<rparr>)
                       | None \<Rightarrow>
                           (case flate_Reader lib (flushed w) of
                              (out, Some e) \<Rightarrow>
                                (Returns (of_nat (length out),
                                          Some (Errorf_wv ''%w: failed to decompress file (%v)'' ErrDecipher e)),
                                 (write_plain s out)\<lparr>tmp_data := None\<rparr>)
                            | (out, None) \<Rightarrow>
                                if of_nat (length out) \<noteq> size_field hdr
                                then (Returns (of_nat (length out), Some ErrDecipher),
                                      (write_plain s out)\<lparr>tmp_data := None\<rparr>)
                                else (Returns (of_nat (length out), None),
                                      (write_plain s out)\<lparr>tmp_data := None\<rparr>)))))
          else
            (case doDecipher flt ftype hdr (cipher_data s) 80 NewWriter of
               (w, Panics m) \<Rightarrow> (Panics m, write_plain s (flushed w))
             | (w, Returns (bytesWritten, Some err)) \<Rightarrow> (Returns (0, Some err), write_plain s (flushed w))
             | (w, Returns (bytesWritten, None)) \<Rightarrow>
                 if bytesWritten \<noteq> size_field hdr
                 then (Returns (bytesWritten, Some ErrDecipher), write_plain s (flushed w))
                 else (Returns (bytesWritten, None), write_plain s (flushed w))))"

text \<open>
  \<open>doDecipherOpenSSL\<close>. \<open>pw\<close> is the field \<open>password\<close> of the decipher. The deferred
  function removes the temporary file on every way out after its creation. The digest
  is that of \<open>md5.New()\<close>. The result is \<open>None\<close> if \<open>EVPBytesToKey\<close> does not return;
  \<open>DecipherFile_returns\<close> below shows that it always does.
\<close>

definition doDecipherOpenSSL ::
  "codecs \<Rightarrow> faults \<Rightarrow> fileType \<Rightarrow> byte list \<Rightarrow> world
   \<Rightarrow> ((64 word \<times> error option) outcome \<times> world) option" where
  "doDecipherOpenSSL lib flt ftype pw s =
     (case seek_cipher flt 8 of
        Some err \<Rightarrow> Some (Returns (0, Some (Errorf_w ''%w'' err)), s)
      | None \<Rightarrow>
          (case ReadFull (cipher_data s) 8 SaltSize of
             (sl, Some err) \<Rightarrow> Some (Returns (0, Some (Errorf_wv ''%w: %v'' ErrDecipher err)), s)
           | (sl, None) \<Rightarrow>
               if length sl < SaltSize
               then Some (Returns (0, Some (Errorf_w ''%w: premature end of file'' ErrDecipher)), s)
               else
                 (case EVPBytesToKey (AesKeyStrength div 8) 16 md5_Sum (Some sl) (Some pw) ITERATIONS of
                    None \<Rightarrow> None
                  | Some (Panics m) \<Rightarrow> Some (Panics m, s)
                  | Some (Returns (key, iv)) \<Rightarrow>
                      (case create_tmp flt of
                         Some err \<Rightarrow>
                           Some (Returns (0, Some (Errorf_wv ''%w: cannot create tmp file %s (%v)''
                                                     ErrDecipher err)), s)
                       | None \<Rightarrow>
                           (case doDecipher flt ftype \<lparr>size_field = 0, ckey = key, salt = iv\<rparr>
                                   (cipher_data s) 16 NewWriter of
                              (w, Panics m) \<Rightarrow> Some (Panics m, s\<lparr>tmp_data := None\<rparr>)
                            | (w, Returns (bytesWritten, Some err)) \<Rightarrow>
                                Some (Returns (0, Some err), s\<lparr>tmp_data := None\<rparr>)
                            | (w, Returns (bytesWritten, None)) \<Rightarrow>
                                (case seek_tmp flt of
                                   Some e \<Rightarrow> Some (Returns (0, Some (Errorf_w ''%w'' e)), s\<lparr>tmp_data := None\<rparr>)
                                 | None \<Rightarrow>
                                     (case bzip2_Reader lib (flushed w) of
                                        (out, Some e) \<Rightarrow>
                                          Some (Returns (of_nat (length out),
                                                         Some (Errorf_wv ''%w: failed to decompress file (%v)''
                                                                 ErrDecipher e)),
                                                (write_plain s out)\<lparr>tmp_data := None\<rparr>)
                                      | (out, None) \<Rightarrow>
                                          Some (Returns (of_nat (length out), None),
                                                (write_plain s out)\<lparr>tmp_data := None\<rparr>))))))))"

section \<open>decipher.go: DecipherFile\<close>

text \<open>
  \<open>password\<close> is the package variable of main.go and \<open>param\<close> the request. The result
  is the error returned (\<open>None\<close> for nil) and the files as the call leaves them.
\<close>

definition DecipherFile ::
  "codecs \<Rightarrow> faults \<Rightarrow> byte list option \<Rightarrow> DecipherParam \<Rightarrow> world
   \<Rightarrow> (error option outcome \<times> world) option" where
  "DecipherFile lib flt password param s =
     (case open_cipher flt of
        Some err \<Rightarrow> Some (Returns (Some (Errorf_w ''invalid input file: %w'' err)), s)
      | None \<Rightarrow>
          (case (if encryptVersion (checkCipheredFile (cipher_data s)) \<ge> 0
                 then (case create_plain flt of
                         Some err \<Rightarrow> Inl (Errorf_wv ''%w: invalid target file: %v'' ErrDecipher err)
                       | None \<Rightarrow> Inr (s\<lparr>plain_data := Some []\<rparr>))
                 else Inr s) of
             Inl err \<Rightarrow> Some (Returns (Some err), s)
           | Inr s1 \<Rightarrow>
               if encryptVersion (checkCipheredFile (cipher_data s)) = 0
               then map_option (\<lambda>(res, s2). (map_outcome snd res, s2))
                      (doDecipherOpenSSL lib flt (checkCipheredFile (cipher_data s)) (Password param) s1)
               else if encryptVersion (checkCipheredFile (cipher_data s)) = 1
               then Some (Returns (Some (Errorf_w ''%w: HBS cipher type 1 is currently not supported''
                                          NoCipherFile)), s1)
               else if encryptVersion (checkCipheredFile (cipher_data s)) = 2
               then (case doDecipherV2 lib flt (checkCipheredFile (cipher_data s)) password s1 of
                       (res, s2) \<Rightarrow> Some (map_outcome snd res, s2))
               else Some (Returns (Some NoCipherFile), s1)))"

section \<open>The formats of the specification, and the values of the examples\<close>

text \<open>
  The container formats of the specification. \<open>format_of\<close> reads a \<open>fileType\<close> as
  the switch of \<open>DecipherFile\<close> does; \<open>detect_spec\<close> is format detection in the
  words of the specification.
\<close>

datatype ContainerFormat = Unrecognized | LegacyV1 | GenericSalted | VersionedV2 bool

definition format_of :: "fileType \<Rightarrow> ContainerFormat" where
  "format_of ft =
     (if encryptVersion ft = 0 then GenericSalted
      else if encryptVersion ft = 1 then LegacyV1
      else if encryptVersion ft = 2 then VersionedV2 (compressed ft)
      else Unrecognized)"

definition detect_spec :: "byte list \<Rightarrow> ContainerFormat" where
  "detect_spec data =
     (if length data < 8 then Unrecognized
      else if take 8 data = OpenSSLPrefix then GenericSalted
      else if take 8 data = QNAPFilePrefixV1Bytes then LegacyV1
      else if take 8 data = QNAPFilePrefixV2Bytes
      then (if length data < 10 then Unrecognized else VersionedV2 (data ! 9 = 1))
      else Unrecognized)"

text \<open>
  Key stretching in the words of the specification: the password repeated end to end
  and cut to 32 bytes, so that byte \<open>i\<close> is byte \<open>i mod n\<close> of a password of \<open>n\<close>
  bytes. \<open>be_value\<close> is the number that a list of bytes spells, most significant
  byte first.
\<close>

definition stretch_spec :: "byte list \<Rightarrow> byte list" where
  "stretch_spec pw = map (\<lambda>i. pw ! (i mod length pw)) [0..<32]"

definition be_value :: "byte list \<Rightarrow> nat" where
  "be_value bs = foldl (\<lambda>a b. 256 * a + unat b) 0 bs"

text \<open>
  Key derivation of the salted format in the words of the specification: each digest
  is taken of the digest before it (from the second on), the password and the salt, and
  the digests are put end to end until 48 bytes are there, which three digests of 16
  bytes give; the first 32 bytes are the key and the 16 after them the vector.
\<close>

definition salted_kdf_spec :: "(byte list \<Rightarrow> byte list) \<Rightarrow> byte list \<Rightarrow> byte list \<Rightarrow> byte list \<times> byte list" where
  "salted_kdf_spec md pw sl =
     (let D1 = md (pw @ sl); D2 = md (D1 @ pw @ sl); D3 = md (D2 @ pw @ sl)
      in (take 32 (D1 @ D2 @ D3), take 16 (drop 32 (D1 @ D2 @ D3))))"

text \<open>
  All the bytes a writer has taken, those that have reached the file and those still in
  its buffer.
\<close>

definition all_bytes :: "writer \<Rightarrow> byte list" where
  "all_bytes w = flushed w @ pending w"

text \<open>
  \<open>no_faults\<close> is the operating system with no failure, and \<open>seek_tmp_fails\<close> the
  one whose only failure is the seek on the temporary file. \<open>no_codecs\<close> stands for the
  decompressors in examples whose path never calls them;
  \<open>echo_codecs\<close> decompresses a file to its own content, for examples that need some
  decompressor.
\<close>

definition no_faults :: faults where
  "no_faults = \<lparr>open_cipher = None, create_plain = None, create_tmp = None,
                 seek_cipher = (\<lambda>n. None), seek_tmp = None\<rparr>"

definition seek_tmp_fails :: faults where
  "seek_tmp_fails = no_faults\<lparr>seek_tmp := Some (OsError ''seek'')\<rparr>"

definition no_codecs :: codecs where
  "no_codecs = \<lparr>flate_Reader = (\<lambda>x. ([], Some ErrUnexpectedEOF)),
                 bzip2_Reader = (\<lambda>x. ([], Some ErrUnexpectedEOF))\<rparr>"


text \<open>
  A file of version 2, made for the examples: the magic, the two option bytes (the
  second is the compression flag), six bytes of preamble, the 64 bytes of the encrypted
  header and the body. The password is \<open>test123\<close>. The three headers carry the same
  content key and vector and the sizes 10, 11 and 250. \<open>test_body\<close> is the encryption
  of the ten bytes of the text \<open>plain text\<close>, padded with six bytes 6, and
  \<open>test_body_256\<close> that of the 250 bytes 0 to 249, padded with six bytes 6.
\<close>

definition test_password :: "byte list" where
  "test_password = [116, 101, 115, 116, 49, 50, 51]"

definition test_header_10 :: "byte list" where
  "test_header_10 =
    [179, 98, 182, 223, 238, 162, 196, 246, 1, 252, 151, 64, 150, 229, 138, 102,
     181, 170, 0, 245, 62, 248, 110, 191, 0, 70, 118, 188, 161, 176, 132, 255,
     46, 207, 3, 234, 224, 40, 41, 139, 33, 148, 203, 50, 105, 78, 120, 61,
     211, 210, 159, 75, 3, 148, 249, 234, 231, 41, 65, 228, 127, 108, 106, 63]"

definition test_header_11 :: "byte list" where
  "test_header_11 =
    [179, 98, 182, 223, 238, 162, 196, 246, 1, 252, 151, 64, 150, 229, 138, 102,
     181, 170, 0, 245, 62, 248, 110, 191, 0, 70, 118, 188, 161, 176, 132, 255,
     46, 207, 3, 234, 224, 40, 41, 139, 33, 148, 203, 50, 105, 78, 120, 61,
     211, 22, 163, 174, 35, 67, 191, 40, 9, 253, 8, 215, 6, 167, 134, 1]"

definition test_header_250 :: "byte list" where
  "test_header_250 =
    [179, 98, 182, 223, 238, 162, 196, 246, 1, 252, 151, 64, 150, 229, 138, 102,
     181, 170, 0, 245, 62, 248, 110, 191, 0, 70, 118, 188, 161, 176, 132, 255,
     46, 207, 3, 234, 224, 40, 41, 139, 33, 148, 203, 50, 105, 78, 120, 61,
     95, 23, 192, 71, 130, 58, 183, 227, 74, 216, 136, 141, 13, 133, 108, 54]"

definition test_body :: "byte list" where
  "test_body = [29, 197, 121, 122, 250, 158, 36, 209, 200, 54, 208, 26, 246, 55, 162, 131]"

definition test_body_256 :: "byte list" where
  "test_body_256 =
    [225, 50, 52, 195, 49, 232, 58, 137, 232, 184, 200, 183, 152, 150, 103, 216,
     39, 62, 77, 122, 101, 35, 99, 157, 65, 249, 132, 228, 65, 13, 208, 227,
     221, 163, 163, 206, 83, 193, 32, 236, 86, 67, 181, 48, 243, 39, 110, 75,
     71, 164, 66, 175, 82, 44, 229, 10, 95, 161, 94, 84, 131, 215, 121, 5,
     71, 209, 125, 128, 246, 83, 50, 200, 134, 239, 161, 217, 65, 52, 247, 244,
     232, 35, 57, 229, 207, 191, 18, 243, 25, 66, 29, 244, 151, 184, 14, 68,
     202, 39, 85, 80, 220, 45, 141, 99, 29, 240, 192, 87, 187, 183, 215, 23,
     134, 120, 98, 121, 172, 190, 175, 86, 218, 159, 115, 59, 4, 171, 157, 186,
     181, 49, 197, 109, 212, 104, 82, 85, 89, 224, 73, 97, 100, 182, 65, 9,
     107, 27, 32, 90, 239, 211, 212, 138, 202, 208, 125, 105, 138, 140, 28, 149,
     210, 57, 26, 223, 16, 149, 113, 249, 72, 218, 92, 58, 14, 73, 50, 27,
     29, 29, 52, 101, 60, 77, 160, 5, 255, 48, 27, 197, 14, 191, 181, 153,
     86, 32, 99, 251, 176, 124, 188, 171, 199, 71, 225, 159, 23, 105, 175, 80,
     163, 186, 103, 186, 146, 28, 146, 142, 145, 103, 29, 8, 244, 6, 175, 230,
     243, 89, 28, 170, 4, 158, 213, 195, 14, 32, 150, 219, 170, 96, 179, 149,
     103, 52, 24, 170, 202, 236, 188, 191, 188, 34, 149, 93, 62, 182, 176, 205]"

definition test_ckey :: "byte list" where
  "test_ckey = [3, 10, 17, 24, 31, 38, 45, 52, 59, 66, 73, 80, 87, 94, 101, 108,
                    115, 122, 129, 136, 143, 150, 157, 164, 171, 178, 185, 192, 199, 206, 213, 220]"

definition test_iv :: "byte list" where
  "test_iv = [5, 16, 27, 38, 49, 60, 71, 82, 93, 104, 115, 126, 137, 148, 159, 170]"

definition test_file :: "byte \<Rightarrow> byte list \<Rightarrow> byte list \<Rightarrow> byte list" where
  "test_file flag hdr body = QNAPFilePrefixV2Bytes @ [0, flag, 0, 0, 0, 0, 0, 0] @ hdr @ body"

definition test_param :: DecipherParam where
  "test_param = \<lparr>CipheredFileName = ''in'', PlainFileName = ''out'',
                  Password = test_password, Verbose = False\<rparr>"

text \<open>
  A file of the salted format, made for the examples: the prefix, the salt and the
  body, which \<open>openssl enc -d -aes-256-cbc -md md5\<close> deciphers with the password
  \<open>test123\<close>. The body is the encryption of \<open>bzip2_text\<close>, padded with fifteen bytes
  15, and \<open>bzip2_text\<close> is the 49 bytes that bzip2 makes of the text \<open>plain text\<close>.
  \<open>text_codecs\<close> gives the decompressors at this one stream: \<open>bzip2_Reader\<close>
  decompresses \<open>bzip2_text\<close> to that text and fails on any other content.
  \<open>salted_key\<close> and \<open>salted_iv\<close> name the key and the vector that the password
  \<open>test123\<close> gives with the salt of the file, and \<open>wrong_key\<close> and \<open>wrong_iv\<close> those
  that \<open>wrong_password\<close>, the word \<open>wrong\<close>, gives (\<open>salted_kdf_test_password\<close> and
  \<open>salted_kdf_wrong_password\<close> below).
\<close>

definition salted_salt :: "byte list" where
  "salted_salt = [1, 35, 69, 103, 137, 171, 205, 239]"

definition salted_body :: "byte list" where
  "salted_body =
    [255, 140, 8, 124, 34, 225, 116, 202, 126, 147, 243, 127, 223, 241, 9, 57,
     88, 52, 154, 34, 137, 83, 245, 181, 194, 121, 112, 218, 127, 156, 29, 236,
     215, 76, 34, 57, 50, 140, 33, 189, 178, 10, 56, 114, 182, 211, 118, 123,
     114, 33, 78, 111, 17, 28, 179, 105, 91, 127, 40, 8, 221, 197, 69, 163]"

definition salted_file :: "byte list" where
  "salted_file = OpenSSLPrefix @ salted_salt @ salted_body"

definition bzip2_text :: "byte list" where
  "bzip2_text =
    [66, 90, 104, 57, 49, 65, 89, 38, 83, 89, 168, 181, 10, 32, 0, 0,
     3, 17, 128, 64, 0, 34, 37, 68, 64, 32, 0, 34, 1, 167, 164, 32,
     201, 136, 72, 208, 206, 111, 197, 220, 145, 78, 20, 36, 42, 45, 66, 136,
     0]"

definition text_codecs :: codecs where
  "text_codecs =
     \<lparr>flate_Reader = (\<lambda>f. ([], Some ErrUnexpectedEOF)),
      bzip2_Reader = (\<lambda>f. if f = bzip2_text then ([112, 108, 97, 105, 110, 32, 116, 101, 120, 116], None)
                           else ([], Some (OsError ''bzip2 data invalid'')))\<rparr>"

definition salted_key :: "byte list" where
  "salted_key = [212, 186, 248, 37, 62, 140, 248, 226, 111, 28, 216, 155, 225, 140, 176, 190,
                  137, 162, 39, 28, 218, 171, 162, 106, 160, 7, 165, 65, 57, 45, 113, 47]"

definition salted_iv :: "byte list" where
  "salted_iv = [202, 42, 252, 91, 234, 84, 158, 203, 243, 215, 253, 233, 197, 163, 126, 60]"

definition wrong_password :: "byte list" where
  "wrong_password = [119, 114, 111, 110, 103]"

definition wrong_key :: "byte list" where
  "wrong_key = [90, 58, 24, 138, 223, 123, 249, 186, 25, 15, 98, 244, 155, 90, 70, 128,
                  84, 92, 61, 195, 226, 158, 78, 229, 33, 77, 105, 7, 102, 205, 238, 201]"

definition wrong_iv :: "byte list" where
  "wrong_iv = [231, 180, 219, 148, 106, 218, 223, 236, 177, 65, 222, 246, 130, 149, 206, 104]"

section \<open>Properties\<close>

subsection \<open>Facts about the library\<close>

lemma no_faults_simps [simp]:
  "open_cipher no_faults = None" "create_plain no_faults = None" "create_tmp no_faults = None"
  "seek_cipher no_faults n = None" "seek_tmp no_faults = None"
  by (simp_all add: no_faults_def)

lemma seek_tmp_fails_simps [simp]:
  "open_cipher seek_tmp_fails = None" "create_plain seek_tmp_fails = None"
  "create_tmp seek_tmp_fails = None" "seek_cipher seek_tmp_fails n = None"
  "seek_tmp seek_tmp_fails = Some (OsError ''seek'')"
  by (simp_all add: seek_tmp_fails_def)

lemma length_aes_decrypt [simp]: "length (aes_decrypt key src) = 16"
  unfolding aes_decrypt_def
  by (cases "InvCipher (rev (KeyExpansion key)) (to_state src)") simp

lemma length_cbc_blocks:
  "length iv = 16 \<Longrightarrow> 16 * n \<le> length src \<Longrightarrow> length (cbc_blocks key n iv src) = 16 * n"
proof (induction n arbitrary: iv src)
  case 0
  then show ?case by simp
next
  case (Suc n)
  then show ?case by simp
qed

lemma CryptBlocks_Returns:
  assumes "length src mod 16 = 0" "length iv = 16"
  shows "\<exists>d iv'. CryptBlocks key iv src = Returns (d, iv') \<and> length d = length src \<and> length iv' = 16"
proof (cases "src = []")
  case True
  with assms show ?thesis by (simp add: CryptBlocks_def)
next
  case False
  from assms obtain k where k: "length src = 16 * k" by (auto simp: mod_eq_0_iff_dvd)
  with False have "k \<noteq> 0" by (cases k) auto
  with k have "16 \<le> length src" by simp
  moreover from k have "16 * (length src div 16) = length src" by simp
  ultimately show ?thesis using assms False
    by (simp add: CryptBlocks_def length_cbc_blocks)
qed

lemma reader_Read_Inr:
  assumes "reader_Read data r 256 = (Inr enc, r')"
  shows "length enc \<le> 256" and "enc \<noteq> []"
    and "length (rbuf r') + (length data - rpos r') + length enc = length (rbuf r) + (length data - rpos r)"
    and "256 dvd length (rbuf r) \<Longrightarrow> 256 dvd (length data - rpos r) \<Longrightarrow>
         length enc = 256 \<and> 256 dvd length (rbuf r') \<and> 256 dvd (length data - rpos r')"
proof -
  show "length enc \<le> 256" "enc \<noteq> []"
    using assms by (auto simp: reader_Read_def Let_def split: if_splits)
  show "length (rbuf r') + (length data - rpos r') + length enc = length (rbuf r) + (length data - rpos r)"
    using assms by (auto simp: reader_Read_def Let_def split: if_splits)
  assume d: "256 dvd length (rbuf r)" "256 dvd (length data - rpos r)"
  show "length enc = 256 \<and> 256 dvd length (rbuf r') \<and> 256 dvd (length data - rpos r')"
  proof (cases "rbuf r = []")
    case True
    let ?chunk = "take 4096 (drop (rpos r) data)"
    from True assms have ne: "?chunk \<noteq> []" and enc: "enc = take 256 ?chunk"
      and r': "r' = \<lparr>rbuf = drop 256 ?chunk, rpos = rpos r + length ?chunk\<rparr>"
      by (auto simp: reader_Read_def Let_def split: if_splits)
    have len: "length ?chunk = min 4096 (length data - rpos r)" by simp
    from d(2) have dc: "256 dvd length ?chunk" unfolding len by (simp add: min_def)
    with ne have "256 \<le> length ?chunk" by (auto dest: dvd_imp_le)
    with enc have "length enc = 256" by simp
    moreover from dc have "256 dvd length (drop 256 ?chunk)" by simp
    moreover have "256 dvd ((length data - rpos r) - length ?chunk)"
      using d(2) dc by (rule dvd_diff_nat)
    then have "256 dvd (length data - (rpos r + length ?chunk))"
      by (simp only: diff_diff_left)
    ultimately show ?thesis unfolding r' by simp
  next
    case False
    with assms have enc: "enc = take 256 (rbuf r)" and r': "r' = r\<lparr>rbuf := drop 256 (rbuf r)\<rparr>"
      by (auto simp: reader_Read_def)
    from False d(1) have "256 \<le> length (rbuf r)" by (auto dest: dvd_imp_le)
    with enc have "length enc = 256" by simp
    moreover from d(1) have "256 dvd length (drop 256 (rbuf r))" by simp
    ultimately show ?thesis using r' d(2) by simp
  qed
qed

lemma reader_Read_Inl:
  assumes "reader_Read data r 256 = (Inl e, r')"
  shows "e = EOF" and "length (rbuf r) + (length data - rpos r) = 0"
  using assms by (auto simp: reader_Read_def Let_def split: if_splits)

lemma all_bytes_Write: "all_bytes (writer_Write w p) = all_bytes w @ p"
  by (simp add: all_bytes_def writer_Write_def)

lemma writer_Flush_all: "flushed (writer_Flush w) = all_bytes w" "pending (writer_Flush w) = []"
  by (simp_all add: all_bytes_def writer_Flush_def)

text \<open>
  \<open>binary.BigEndian.Uint64\<close> of eight bytes is the number they spell, most
  significant byte first.
\<close>

lemma be_flat_nested:
  fixes b0 b1 b2 b3 b4 b5 b6 b7 :: byte
  shows "(ucast b7 OR push_bit 8 (ucast b6) OR push_bit 16 (ucast b5)
     OR push_bit 24 (ucast b4) OR push_bit 32 (ucast b3) OR push_bit 40 (ucast b2)
     OR push_bit 48 (ucast b1) OR push_bit 56 (ucast b0) :: 64 word)
   = push_bit 8 (push_bit 8 (push_bit 8 (push_bit 8 (push_bit 8 (push_bit 8 (push_bit 8 (ucast b0) OR ucast b1) OR ucast b2) OR ucast b3) OR ucast b4) OR ucast b5) OR ucast b6) OR ucast b7"
  apply (rule bit_eqI)
  apply (auto simp: bit_simps)
  done

lemma unat_ucast_byte: "unat (ucast x :: 64 word) = unat x" for x :: byte
proof -
  have "unat x < 2 ^ 8" using unsigned_less [of x, where 'a = nat] by simp
  then have "unat x < 2 ^ 64" by simp
  then show ?thesis
    by (simp add: unsigned_ucast_eq take_bit_nat_eq_self)
qed

lemma be_step:
  fixes a :: "64 word" and x :: byte
  assumes "unat a < 2 ^ 56"
  shows "unat (push_bit 8 a OR ucast x) = 256 * unat a + unat x"
proof -
  have disj: "push_bit 8 a AND (ucast x :: 64 word) = 0"
    by (rule bit_eqI) (auto simp: bit_simps dest: bit_imp_le_length)
  have x: "unat (ucast x :: 64 word) = unat x"
    by (rule unat_ucast_byte)
  have xb: "unat x < 256" using unsigned_less [of x, where 'a = nat] by simp
  from assms have "unat a * unat (256 :: 64 word) < 2 ^ 64" by simp
  then have m: "unat (a * 256) = unat a * 256"
    using unat_mult_lem [of a "256 :: 64 word"] by simp
  from assms xb have "unat (a * 256) + unat (ucast x :: 64 word) < 2 ^ 64"
    by (simp add: m x)
  then have "unat (a * 256 + ucast x) = unat (a * 256) + unat (ucast x :: 64 word)"
    using unat_add_lem [of "a * 256" "ucast x :: 64 word"] by simp
  moreover have "push_bit 8 a OR ucast x = a * 256 + ucast x"
    using disjunctive_add_eq_or [OF disj] by (simp add: push_bit_eq_mult)
  ultimately show ?thesis by (simp add: m x)
qed

lemma BigEndian_Uint64_value:
  assumes "length b = 8"
  shows "unat (BigEndian_Uint64 b) = be_value b"
proof -
  from assms obtain b0 b1 b2 b3 b4 b5 b6 b7 where b: "b = [b0, b1, b2, b3, b4, b5, b6, b7]"
    by (auto simp: length_Suc_conv eval_nat_numeral)
  have lt: "unat x < 256" for x :: byte using unsigned_less [of x, where 'a = nat] by simp
  have u0: "unat (ucast b0 :: 64 word) = unat b0" by (rule unat_ucast_byte)
  let ?a1 = "push_bit 8 (ucast b0 :: 64 word) OR ucast b1"
  let ?a2 = "push_bit 8 ?a1 OR ucast b2"
  let ?a3 = "push_bit 8 ?a2 OR ucast b3"
  let ?a4 = "push_bit 8 ?a3 OR ucast b4"
  let ?a5 = "push_bit 8 ?a4 OR ucast b5"
  let ?a6 = "push_bit 8 ?a5 OR ucast b6"
  let ?a7 = "push_bit 8 ?a6 OR ucast b7"
  have v0: "unat (ucast b0 :: 64 word) < 2 ^ 56"
    unfolding u0 using lt [of b0] by simp
  have v1: "unat ?a1 = 256 * unat b0 + unat b1"
    using be_step [OF v0, of b1] unfolding u0 .
  have w1: "unat ?a1 < 2 ^ 56"
    unfolding v1 using lt [of b0] lt [of b1] by simp
  have v2: "unat ?a2 = 256 * (256 * unat b0 + unat b1) + unat b2"
    using be_step [OF w1, of b2] unfolding v1 .
  have w2: "unat ?a2 < 2 ^ 56"
    unfolding v2 using lt [of b0] lt [of b1] lt [of b2] by simp
  have v3: "unat ?a3 = 256 * (256 * (256 * unat b0 + unat b1) + unat b2) + unat b3"
    using be_step [OF w2, of b3] unfolding v2 .
  have w3: "unat ?a3 < 2 ^ 56"
    unfolding v3 using lt [of b0] lt [of b1] lt [of b2] lt [of b3] by simp
  have v4: "unat ?a4 = 256 * (256 * (256 * (256 * unat b0 + unat b1) + unat b2) + unat b3) + unat b4"
    using be_step [OF w3, of b4] unfolding v3 .
  have w4: "unat ?a4 < 2 ^ 56"
    unfolding v4 using lt [of b0] lt [of b1] lt [of b2] lt [of b3] lt [of b4] by simp
  have v5: "unat ?a5 = 256 * (256 * (256 * (256 * (256 * unat b0 + unat b1) + unat b2) + unat b3) + unat b4) + unat b5"
    using be_step [OF w4, of b5] unfolding v4 .
  have w5: "unat ?a5 < 2 ^ 56"
    unfolding v5 using lt [of b0] lt [of b1] lt [of b2] lt [of b3] lt [of b4] lt [of b5] by simp
  have v6: "unat ?a6 = 256 * (256 * (256 * (256 * (256 * (256 * unat b0 + unat b1) + unat b2) + unat b3) + unat b4) + unat b5) + unat b6"
    using be_step [OF w5, of b6] unfolding v5 .
  have w6: "unat ?a6 < 2 ^ 56"
    unfolding v6 using lt [of b0] lt [of b1] lt [of b2] lt [of b3] lt [of b4] lt [of b5] lt [of b6] by simp
  have v7: "unat ?a7 = 256 * (256 * (256 * (256 * (256 * (256 * (256 * unat b0 + unat b1) + unat b2) + unat b3) + unat b4) + unat b5) + unat b6) + unat b7"
    using be_step [OF w6, of b7] unfolding v6 .
  have "BigEndian_Uint64 b = ?a7"
    unfolding b BigEndian_Uint64_def using be_flat_nested [of b7 b6 b5 b4 b3 b2 b1 b0] by simp
  then have "unat (BigEndian_Uint64 b) = unat ?a7" by (rule arg_cong)
  also note v7
  finally show ?thesis by (simp add: b be_value_def)
qed

subsection \<open>The digest\<close>

lemma replicate_numeral: "replicate (numeral k) x = x # replicate (pred_numeral k) x"
  by (simp add: numeral_eq_Suc)

lemmas md5_eval = md5_Sum_def md5_pad_def md5_blocks.simps md5_block_def md5_table_def add32_def
  not32_def rotl32_def le_bytes_def replicate_numeral

text \<open>
  Three digests of the test suite of RFC 1321, appendix A.5: of the empty message, of
  \<open>abc\<close>, and of the ten digits eight times over, which fill two blocks.
\<close>

lemma md5_Sum_rfc1321_empty:
  "md5_Sum
     []
   = [212, 29, 140, 217, 143, 0, 178, 4, 233, 128, 9, 152, 236, 248, 66, 126]"
  by (simp add: md5_eval)

lemma md5_Sum_rfc1321_abc:
  "md5_Sum
     [97, 98, 99]
   = [144, 1, 80, 152, 60, 210, 79, 176, 214, 150, 63, 125, 40, 225, 127, 114]"
  by (simp add: md5_eval)

lemma md5_Sum_rfc1321_digits:
  "md5_Sum
     [49, 50, 51, 52, 53, 54, 55, 56, 57, 48, 49, 50, 51, 52, 53, 54,
     55, 56, 57, 48, 49, 50, 51, 52, 53, 54, 55, 56, 57, 48, 49, 50,
     51, 52, 53, 54, 55, 56, 57, 48, 49, 50, 51, 52, 53, 54, 55, 56,
     57, 48, 49, 50, 51, 52, 53, 54, 55, 56, 57, 48, 49, 50, 51, 52,
     53, 54, 55, 56, 57, 48, 49, 50, 51, 52, 53, 54, 55, 56, 57, 48]
   = [87, 237, 244, 162, 43, 227, 201, 85, 172, 73, 218, 46, 33, 7, 182, 122]"
  by (simp add: md5_eval)

lemma length_md5_Sum: "length (md5_Sum x) = 16"
proof -
  obtain a b c d where "md5_blocks (1732584193, 4023233417, 2562383102, 271733878) (md5_pad x) = (a, b, c, d)"
    by (cases "md5_blocks (1732584193, 4023233417, 2562383102, 271733878) (md5_pad x)") auto
  then show ?thesis by (simp add: md5_Sum_def le_bytes_def)
qed

subsection \<open>Padding removal and format detection\<close>

lemma PKCS5Trimming_fails_iff:
  "src \<noteq> [] \<Longrightarrow>
   (\<exists>e. PKCS5Trimming src blockSize = Returns (Inl e)) \<longleftrightarrow>
   (uint (last src) \<ge> int (length src) \<or> uint (last src) > blockSize)"
  by (simp add: PKCS5Trimming_def Let_def)

lemma checkCipheredFile_format: "format_of (checkCipheredFile data) = detect_spec data"
proof (cases "length data < 8")
  case True
  then show ?thesis
    by (auto simp: checkCipheredFile_def ReadFull_def detect_spec_def format_of_def Let_def)
next
  case False
  then have rd: "ReadFull data 0 8 = (take 8 data, None)"
    by (simp add: ReadFull_def)
  have ne: "OpenSSLPrefix \<noteq> QNAPFilePrefixV1Bytes" "OpenSSLPrefix \<noteq> QNAPFilePrefixV2Bytes"
    "QNAPFilePrefixV1Bytes \<noteq> QNAPFilePrefixV2Bytes"
    by (simp_all add: OpenSSLPrefix_def QNAPFilePrefixV1Bytes_def QNAPFilePrefixV2Bytes_def)
  show ?thesis
  proof (cases "length data < 10")
    case True
    with False have "ReadFull data 8 2 = (drop 8 data, Some ErrUnexpectedEOF) \<or> ReadFull data 8 2 = ([], Some EOF)"
      by (auto simp: ReadFull_def Let_def)
    with False True rd ne show ?thesis
      by (auto simp: checkCipheredFile_def detect_spec_def format_of_def)
  next
    case ten: False
    then have "ReadFull data 8 2 = (take 2 (drop 8 data), None)"
      by (simp add: ReadFull_def Let_def)
    moreover from ten have "take 2 (drop 8 data) ! 1 = data ! 9" by simp
    ultimately show ?thesis using False ten rd ne
      by (auto simp: checkCipheredFile_def detect_spec_def format_of_def)
  qed
qed

lemma checkCipheredFile_versions:
  "encryptVersion (checkCipheredFile data) \<in> {-1, 0, 1, 2}"
  by (auto simp: checkCipheredFile_def Let_def split: prod.splits)

lemma detect_spec_Unrecognized_iff:
  "detect_spec data = Unrecognized \<longleftrightarrow> encryptVersion (checkCipheredFile data) = -1"
  using checkCipheredFile_versions [of data] checkCipheredFile_format [of data]
  by (auto simp: format_of_def split: if_splits)

lemma detect_spec_recognised:
  "detect_spec data \<noteq> Unrecognized \<Longrightarrow> 0 \<le> encryptVersion (checkCipheredFile data)"
  using checkCipheredFile_versions [of data] by (auto simp: detect_spec_Unrecognized_iff)

subsection \<open>Key stretching and the header of version 2\<close>

lemma length_concat_replicate: "length (concat (replicate n xs)) = n * length xs"
  by (induction n) simp_all

lemma stretch_iter_enough:
  assumes "0 < (l::nat)"
  shows "32 \<le> (1 + 32 div l) * l"
proof -
  have "32 = 32 div l * l + 32 mod l" by simp
  moreover from assms have "32 mod l < l" by simp
  ultimately have "32 < 32 div l * l + l" by linarith
  then show ?thesis by simp
qed

lemma stretch_password_Returns:
  "pw \<noteq> [] \<Longrightarrow> stretch_password pw = Returns (take 32 (concat (replicate (1 + 32 div length pw) pw)))"
  using stretch_iter_enough [of "length pw"]
  by (simp add: stretch_password_def Let_def length_concat_replicate)

lemma stretch_password_length:
  "pw \<noteq> [] \<Longrightarrow> length (take 32 (concat (replicate (1 + 32 div length pw) pw))) = 32"
  using stretch_iter_enough [of "length pw"]
  by (simp add: length_concat_replicate)

lemma concat_replicate_nth:
  "i < n * length xs \<Longrightarrow> concat (replicate n xs) ! i = xs ! (i mod length xs)"
proof (induction n arbitrary: i)
  case 0
  then show ?case by simp
next
  case (Suc n)
  show ?case
  proof (cases "i < length xs")
    case True
    then show ?thesis by (simp add: nth_append)
  next
    case False
    with Suc.prems have "i - length xs < n * length xs" by simp
    from Suc.IH [OF this] False show ?thesis
      by (simp add: nth_append le_mod_geq)
  qed
qed

lemma take_concat_replicate:
  assumes "m \<le> n * length xs"
  shows "take m (concat (replicate n xs)) = map (\<lambda>i. xs ! (i mod length xs)) [0..<m]"
proof (rule nth_equalityI)
  show "length (take m (concat (replicate n xs))) = length (map (\<lambda>i. xs ! (i mod length xs)) [0..<m])"
    using assms by (simp add: length_concat_replicate)
next
  fix i
  assume "i < length (take m (concat (replicate n xs)))"
  then have i: "i < m" by simp
  with assms have "i < n * length xs" by simp
  from concat_replicate_nth [OF this] i
  show "take m (concat (replicate n xs)) ! i = map (\<lambda>i. xs ! (i mod length xs)) [0..<m] ! i"
    by simp
qed

lemma stretch_is_spec:
  assumes "pw \<noteq> []"
  shows "take 32 (concat (replicate (1 + 32 div length pw) pw)) = stretch_spec pw"
  unfolding stretch_spec_def
  by (rule take_concat_replicate) (use assms stretch_iter_enough [of "length pw"] in simp)

lemma stretch_password_spec: "pw \<noteq> [] \<Longrightarrow> stretch_password pw = Returns (stretch_spec pw)"
  unfolding stretch_is_spec [symmetric] by (rule stretch_password_Returns)

lemma length_decrypt_header_blocks [simp]: "length (decrypt_header_blocks key inb) = 64"
  by (simp add: decrypt_header_blocks_def)

lemma decipherV2Header_Returns:
  assumes "pw \<noteq> []" "80 \<le> length data" "seek_cipher flt 16 = None"
  shows "decipherV2Header flt data (Some pw) =
     Returns (Inr \<lparr>size_field = BigEndian_Uint64 (take 8 (drop 56
                      (decrypt_header_blocks (stretch_spec pw) (take 64 (drop 16 data))))),
                   ckey = take 32 (drop 8 (decrypt_header_blocks (stretch_spec pw) (take 64 (drop 16 data)))),
                   salt = take 16 (drop 40 (decrypt_header_blocks (stretch_spec pw) (take 64 (drop 16 data))))\<rparr>)"
proof -
  have k: "stretch_password pw = Returns (stretch_spec pw)"
    using assms(1) by (rule stretch_password_spec)
  have "length (stretch_spec pw) = 32" by (simp add: stretch_spec_def)
  then have c: "NewCipher (stretch_spec pw) = Inr (stretch_spec pw)"
    by (simp add: NewCipher_def)
  from assms(2) have r: "ReadFull data 16 64 = (take 64 (drop 16 data), None)"
    by (simp add: ReadFull_def Let_def)
  from assms(2) have "\<not> length (take 64 (drop 16 data)) < 64" by simp
  with k c r assms(3) show ?thesis
    by (simp add: decipherV2Header_def)
qed

lemma header_lengths:
  "length (take 32 (drop 8 (decrypt_header_blocks key inb))) = 32"
  "length (take 16 (drop 40 (decrypt_header_blocks key inb))) = 16"
  "length (take 8 (drop 56 (decrypt_header_blocks key inb))) = 8"
  by simp_all

lemma decrypt_header_blocks_of_file:
  "80 \<le> length data \<Longrightarrow>
   decrypt_header_blocks key (take 64 (drop 16 data)) =
     aes_decrypt key (take 16 (drop 16 data)) @ aes_decrypt key (take 16 (drop 32 data))
     @ aes_decrypt key (take 16 (drop 48 data)) @ aes_decrypt key (take 16 (drop 64 data))"
  by (simp add: decrypt_header_blocks_def drop_take add.commute)

lemma decipherV2Header_lengths:
  assumes "decipherV2Header flt data password = Returns (Inr hdr)"
  shows "length (ckey hdr) = 32" "length (salt hdr) = 16"
  using assms
  by (auto simp: decipherV2Header_def split: option.splits outcome.splits sum.splits prod.splits if_splits)

subsection \<open>The streaming loop\<close>

text \<open>
  The loop never panics. On a body of whole chunks of 256 bytes it ends with the error
  of the read at the end of the file; on a body of one such chunk nothing has reached
  the file by then. When the loop succeeds, the buffer of the writer is empty and the
  count is the number of bytes emitted.
\<close>

lemma decipher_loop_no_panic:
  "length iv = 16 \<Longrightarrow> \<exists>res. snd (decipher_loop key data r iv w bw) = Returns res"
proof (induction key data r iv w bw rule: decipher_loop.induct)
  case (1 key data r iv w bw)
  obtain x r' where rd: "reader_Read data r 256 = (x, r')" by (cases "reader_Read data r 256")
  show ?case
  proof (cases x)
    case (Inl e)
    with rd show ?thesis by (subst decipher_loop.simps) simp
  next
    case (Inr enc)
    note rl = reader_Read_Inr(1,2) [OF rd [unfolded Inr]]
    show ?thesis
    proof (cases "length enc < 256")
      case True
      show ?thesis
      proof (cases "length enc mod 16 = 0")
        case False
        with rd Inr True show ?thesis by (subst decipher_loop.simps) simp
      next
        case m: True
        from CryptBlocks_Returns [OF m "1.prems", of key] obtain d iv'
          where cb: "CryptBlocks key iv enc = Returns (d, iv')" and ld: "length d = length enc" by blast
        from ld rl have "d \<noteq> []" by auto
        then have "\<exists>t. PKCS5Trimming d 16 = Returns t"
          by (simp add: PKCS5Trimming_def Let_def)
        then obtain t where "PKCS5Trimming d 16 = Returns t" ..
        with rd Inr True m cb show ?thesis
          by (subst decipher_loop.simps) (simp split: sum.splits)
      qed
    next
      case False
      with rl have l: "length enc = 256" by simp
      then have m: "length enc mod 16 = 0" by simp
      from CryptBlocks_Returns [OF m "1.prems", of key] obtain d iv'
        where cb: "CryptBlocks key iv enc = Returns (d, iv')" and li: "length iv' = 16" by blast
      from "1.IH" [OF rd [symmetric] Inr False cb refl li]
      obtain res where "snd (decipher_loop key data r' iv' (writer_Write w d) (bw + of_nat (length d))) = Returns res"
        by blast
      with rd Inr False cb show ?thesis
        by (subst decipher_loop.simps) simp
    qed
  qed
qed

lemma decipher_loop_whole_chunks:
  "length iv = 16 \<Longrightarrow> 256 dvd length (rbuf r) \<Longrightarrow> 256 dvd (length data - rpos r) \<Longrightarrow>
   snd (decipher_loop key data r iv w bw)
   = Returns (bw + of_nat (length (rbuf r) + (length data - rpos r)),
              Some (Errorf_wv ''%w: %v'' ErrDecipher EOF))"
proof (induction key data r iv w bw rule: decipher_loop.induct)
  case (1 key data r iv w bw)
  obtain x r' where rd: "reader_Read data r 256 = (x, r')" by (cases "reader_Read data r 256")
  show ?case
  proof (cases x)
    case (Inl e)
    with rd reader_Read_Inl [of data r e r'] show ?thesis
      by (subst decipher_loop.simps) simp
  next
    case (Inr enc)
    note rd' = rd [unfolded Inr]
    from reader_Read_Inr(4) [OF rd' "1.prems"(2,3)]
    have l: "length enc = 256" and d': "256 dvd length (rbuf r')" "256 dvd (length data - rpos r')"
      by simp_all
    from l have nl: "\<not> length enc < 256" and m: "length enc mod 16 = 0" by simp_all
    from CryptBlocks_Returns [OF m "1.prems"(1), of key] obtain d iv'
      where cb: "CryptBlocks key iv enc = Returns (d, iv')" and ld: "length d = length enc"
        and li: "length iv' = 16" by blast
    note ih = "1.IH" [OF rd [symmetric] Inr nl cb refl li d']
    from reader_Read_Inr(3) [OF rd'] l
    have tot: "length (rbuf r) + (length data - rpos r) = 256 + (length (rbuf r') + (length data - rpos r'))"
      by simp
    have step: "decipher_loop key data r iv w bw
                = decipher_loop key data r' iv' (writer_Write w d) (bw + of_nat (length d))"
      by (subst decipher_loop.simps) (simp add: rd Inr nl cb)
    show ?thesis
      unfolding step ih tot by (simp add: ld l)
  qed
qed

lemma decipher_loop_success:
  "decipher_loop key data r iv w bw = (w', Returns (n, None)) \<Longrightarrow>
   pending w' = [] \<and> (\<exists>em. flushed w' = all_bytes w @ em \<and> n = bw + of_nat (length em))"
proof (induction key data r iv w bw rule: decipher_loop.induct)
  case (1 key data r iv w bw)
  obtain x r' where rd: "reader_Read data r 256 = (x, r')" by (cases "reader_Read data r 256")
  show ?case
  proof (cases x)
    case (Inl e)
    with rd "1.prems" show ?thesis by (subst (asm) decipher_loop.simps) simp
  next
    case (Inr enc)
    show ?thesis
    proof (cases "length enc < 256")
      case True
      with rd Inr "1.prems" obtain d iv' trimmed where
        "w' = writer_Flush (writer_Write w trimmed)" "n = bw + of_nat (length trimmed)"
        by (subst (asm) decipher_loop.simps)
           (auto split: if_splits outcome.splits sum.splits prod.splits)
      then show ?thesis
        by (simp add: writer_Flush_all all_bytes_Write)
    next
      case False
      with rd Inr "1.prems" obtain d iv' where cb: "CryptBlocks key iv enc = Returns (d, iv')"
        and rec: "decipher_loop key data r' iv' (writer_Write w d) (bw + of_nat (length d))
                  = (w', Returns (n, None))"
        by (subst (asm) decipher_loop.simps) (auto split: outcome.splits prod.splits)
      from "1.IH" [OF rd [symmetric] Inr False cb refl rec]
      obtain em where "pending w' = []" "flushed w' = all_bytes (writer_Write w d) @ em"
        "n = bw + of_nat (length d) + of_nat (length em)" by blast
      then have "pending w' = [] \<and> flushed w' = all_bytes w @ (d @ em)
                 \<and> n = bw + of_nat (length (d @ em))"
        by (simp add: all_bytes_Write)
      then show ?thesis by blast
    qed
  qed
qed

lemma doDecipher_no_panic:
  assumes "length (salt hdr) = 16"
  shows "\<exists>res. snd (doDecipher flt ftype hdr data pos w) = Returns res"
  using assms decipher_loop_no_panic [of "salt hdr"]
  by (auto simp: doDecipher_def split: sum.splits option.splits)

lemma doDecipher_whole_chunks:
  assumes "encryptVersion ftype = 2" "seek_cipher flt 80 = None" "length (ckey hdr) = 32"
    and "length (salt hdr) = 16" "256 dvd (length data - 80)"
  shows "snd (doDecipher flt ftype hdr data pos w)
         = Returns (of_nat (length data - 80), Some (Errorf_wv ''%w: %v'' ErrDecipher EOF))"
  using assms decipher_loop_whole_chunks [of "salt hdr" "\<lparr>rbuf = [], rpos = 80\<rparr>" data "ckey hdr" w 0]
  by (simp add: doDecipher_def HeaderV2Length_def NewCipher_def)

lemma doDecipher_one_chunk:
  assumes "encryptVersion ftype = 2" "seek_cipher flt 80 = None" "length (ckey hdr) = 32"
    and "length (salt hdr) = 16" "length data = 336"
  shows "flushed (fst (doDecipher flt ftype hdr data pos NewWriter)) = []"
proof -
  define enc where "enc = take 256 (take 4096 (drop 80 data))"
  have rd1: "reader_Read data \<lparr>rbuf = [], rpos = 80\<rparr> 256 = (Inr enc, \<lparr>rbuf = [], rpos = 336\<rparr>)"
    using assms(5) by (auto simp: reader_Read_def Let_def enc_def)
  have le: "length enc = 256" using assms(5) by (simp add: enc_def)
  then have m: "length enc mod 16 = 0" by simp
  from CryptBlocks_Returns [OF m assms(4), of "ckey hdr"] obtain d iv'
    where cb: "CryptBlocks (ckey hdr) (salt hdr) enc = Returns (d, iv')" and ld: "length d = length enc"
    by blast
  have rd2: "reader_Read data \<lparr>rbuf = [], rpos = 336\<rparr> 256 = (Inl EOF, \<lparr>rbuf = [], rpos = 336\<rparr>)"
    using assms(5) by (simp add: reader_Read_def)
  have w: "writer_Write NewWriter d = \<lparr>flushed = [], pending = d\<rparr>"
    using ld le by (simp add: writer_Write_def NewWriter_def)
  have "decipher_loop (ckey hdr) data \<lparr>rbuf = [], rpos = 80\<rparr> (salt hdr) NewWriter 0
        = (\<lparr>flushed = [], pending = d\<rparr>, Returns (256, Some (Errorf_wv ''%w: %v'' ErrDecipher EOF)))"
    apply (subst decipher_loop.simps)
    apply (simp add: rd1 le cb w ld)
    apply (subst decipher_loop.simps)
    apply (simp add: rd2)
    done
  with assms show ?thesis
    by (simp add: doDecipher_def HeaderV2Length_def NewCipher_def)
qed

lemma doDecipher_success:
  assumes "doDecipher flt ftype hdr data pos NewWriter = (w, Returns (n, None))"
  shows "pending w = [] \<and> n = of_nat (length (flushed w))"
proof -
  from assms obtain key r where
    "decipher_loop key data r (salt hdr) NewWriter 0 = (w, Returns (n, None))"
    by (auto simp: doDecipher_def split: sum.splits if_splits option.splits)
  from decipher_loop_success [OF this] show ?thesis
    by (auto simp: all_bytes_def NewWriter_def)
qed

subsection \<open>The two formats and the files\<close>

lemma doDecipherV2_keeps_plain:
  "plain_data s \<noteq> None \<Longrightarrow> plain_data (snd (doDecipherV2 lib flt ftype password s)) \<noteq> None"
  by (auto simp: doDecipherV2_def write_plain_def split: outcome.splits sum.splits option.splits prod.splits)

lemma doDecipherOpenSSL_keeps_plain:
  "doDecipherOpenSSL lib flt ftype pw s = Some (res, s') \<Longrightarrow> plain_data s \<noteq> None \<Longrightarrow> plain_data s' \<noteq> None"
  by (auto simp: doDecipherOpenSSL_def write_plain_def split: outcome.splits sum.splits option.splits prod.splits if_splits)

lemma DecipherFile_V2:
  assumes "open_cipher flt = None" "create_plain flt = None"
    and "encryptVersion (checkCipheredFile (cipher_data s)) = 2"
  shows "DecipherFile lib flt password param s =
     Some (map_outcome snd (fst (doDecipherV2 lib flt (checkCipheredFile (cipher_data s)) password
                                   (s\<lparr>plain_data := Some []\<rparr>))),
           snd (doDecipherV2 lib flt (checkCipheredFile (cipher_data s)) password
                  (s\<lparr>plain_data := Some []\<rparr>)))"
  using assms by (simp add: DecipherFile_def split: prod.split)

lemma doDecipherV2_uncompressed_no_tmp:
  "\<not> compressed ftype \<Longrightarrow> tmp_data (snd (doDecipherV2 lib flt ftype password s)) = tmp_data s"
  by (auto simp: doDecipherV2_def write_plain_def split: outcome.splits sum.splits option.splits prod.splits)

text \<open>
  The temporary file: when the seek on it fails, \<open>doDecipherV2\<close> returns with the
  file in place, while \<open>doDecipherOpenSSL\<close> returns either before it has touched any
  file or with the temporary file removed.
\<close>

lemma doDecipherV2_seek_failure_leaves_tmp:
  assumes "compressed ftype"
    and "decipherV2Header flt (cipher_data s) password = Returns (Inr hdr)"
    and "create_tmp flt = None" "seek_tmp flt = Some e"
  shows "doDecipherV2 lib flt ftype password s
         = (Returns (0, Some (Errorf_w ''%w'' e)),
            s\<lparr>tmp_data := Some (flushed (fst (doDecipher flt ftype hdr (cipher_data s) 80 NewWriter)))\<rparr>)"
proof -
  obtain w r where dd: "doDecipher flt ftype hdr (cipher_data s) 80 NewWriter = (w, r)"
    by (cases "doDecipher flt ftype hdr (cipher_data s) 80 NewWriter")
  from doDecipher_no_panic [OF decipherV2Header_lengths(2) [OF assms(2)], of flt ftype "cipher_data s" 80 NewWriter]
  obtain bw err where r: "r = Returns (bw, err)" by (auto simp: dd)
  from assms dd r show ?thesis
    by (simp add: doDecipherV2_def)
qed

lemma doDecipherOpenSSL_removes_tmp:
  assumes "doDecipherOpenSSL lib flt ftype pw s = Some (res, s')"
  shows "s' = s \<or> tmp_data s' = None"
  using assms
  by (auto simp: doDecipherOpenSSL_def write_plain_def
      split: option.splits prod.splits if_splits outcome.splits)

subsection \<open>The salted format\<close>

text \<open>
  With a digest of 16 bytes and a salt of at least eight, \<open>EVPBytesToKey\<close> returns
  after three turns of its loop, with the key and the vector of the specification.
  With a shorter salt it panics.
\<close>

lemma EVPBytesToKey_three_digests:
  assumes "\<And>x. length (md x) = 16" and "8 \<le> length sl"
  shows "EVPBytesToKey 32 16 md (Some sl) (Some pw) 1 = Some (Returns (salted_kdf_spec md pw (take 8 sl)))"
proof -
  have ne: "md x \<noteq> []" for x
    using assms(1) [of x] by auto
  have sl: "\<not> length sl < 8"
    using assms(2) by simp
  show ?thesis
    unfolding EVPBytesToKey_def
    apply simp
    apply (subst EVP_loop.simps)
    apply (simp add: assms(1) ne sl Let_def)
    apply (subst EVP_loop.simps)
    apply (simp add: assms(1) ne sl Let_def)
    apply (subst EVP_loop.simps)
    apply (simp add: assms(1) ne sl Let_def salted_kdf_spec_def)
    done
qed

lemma EVPBytesToKey_short_salt:
  assumes "length sl < 8"
  shows "EVPBytesToKey keyLen ivLen md (Some sl) (Some pw) count = Some (Panics ''slice bounds out of range'')"
  unfolding EVPBytesToKey_def
  by (simp, subst EVP_loop.simps) (simp add: assms)

lemma length_salted_kdf_spec:
  "length (fst (salted_kdf_spec md5_Sum pw sl)) = 32" "length (snd (salted_kdf_spec md5_Sum pw sl)) = 16"
  by (simp_all add: salted_kdf_spec_def Let_def length_md5_Sum)

lemma EVPBytesToKey_md5:
  "8 \<le> length sl \<Longrightarrow>
   EVPBytesToKey (AesKeyStrength div 8) 16 md5_Sum (Some sl) (Some pw) ITERATIONS
   = Some (Returns (salted_kdf_spec md5_Sum pw (take 8 sl)))"
  using EVPBytesToKey_three_digests [of md5_Sum sl pw]
  by (simp add: length_md5_Sum AesKeyStrength_def ITERATIONS_def)

text \<open>\<open>DecipherFile\<close> returns or panics on every input: no loop of it runs for ever.\<close>

lemma doDecipherOpenSSL_returns: "\<exists>r. doDecipherOpenSSL lib flt ftype pw s = Some r"
proof -
  have evp: "(EVPBytesToKey (AesKeyStrength div 8) 16 md5_Sum (Some sl) (Some pw) ITERATIONS = None) = False"
    if "\<not> length sl < 8" for sl
    using that EVPBytesToKey_md5 [of sl pw] by simp
  show ?thesis
    by (auto simp: doDecipherOpenSSL_def SaltSize_def evp split: option.split prod.split outcome.split)
qed

lemma DecipherFile_returns: "\<exists>r. DecipherFile lib flt password param s = Some r"
proof -
  obtain r where "doDecipherOpenSSL lib flt (checkCipheredFile (cipher_data s)) (Password param)
                    (s\<lparr>plain_data := Some []\<rparr>) = Some r"
    using doDecipherOpenSSL_returns by blast
  then show ?thesis
    by (simp add: DecipherFile_def split: option.split sum.split prod.split)
qed

text \<open>
  The run on a file of the salted format that holds its salt, when no call of the
  operating system fails: the key and the vector are derived from the field
  \<open>Password\<close> of the request and the eight bytes after the prefix, the body from
  offset 16 is deciphered with them, and what has reached the temporary file is
  decompressed into the plain file.
\<close>

lemma DecipherFile_GenericSalted:
  assumes "encryptVersion (checkCipheredFile (cipher_data s)) = 0" and "16 \<le> length (cipher_data s)"
    and "open_cipher flt = None" "create_plain flt = None" "seek_cipher flt 8 = None"
    and "create_tmp flt = None" "seek_tmp flt = None"
    and "salted_kdf_spec md5_Sum (Password param) (take 8 (drop 8 (cipher_data s))) = (key, iv)"
    and "doDecipher flt (checkCipheredFile (cipher_data s)) \<lparr>size_field = 0, ckey = key, salt = iv\<rparr>
           (cipher_data s) 16 NewWriter = (w, Returns (n, err))"
  shows "DecipherFile lib flt g param s =
     Some (case err of
             Some e \<Rightarrow> (Returns (Some e), s\<lparr>plain_data := Some [], tmp_data := None\<rparr>)
           | None \<Rightarrow>
               (Returns (map_option (Errorf_wv ''%w: failed to decompress file (%v)'' ErrDecipher)
                           (snd (bzip2_Reader lib (flushed w)))),
                s\<lparr>plain_data := Some (fst (bzip2_Reader lib (flushed w))), tmp_data := None\<rparr>))"
proof -
  have rf: "ReadFull (cipher_data s) 8 8 = (take 8 (drop 8 (cipher_data s)), None)"
    using assms(2) by (simp add: ReadFull_def Let_def)
  have evp: "EVPBytesToKey (AesKeyStrength div 8) 16 md5_Sum (Some (take 8 (drop 8 (cipher_data s))))
               (Some (Password param)) ITERATIONS = Some (Returns (key, iv))"
    using assms(2,8) EVPBytesToKey_md5 [of "take 8 (drop 8 (cipher_data s))" "Password param"] by simp
  show ?thesis
    using assms(1,2,3,4,5,6,7,9)
    by (cases "bzip2_Reader lib (flushed w)")
       (simp add: DecipherFile_def doDecipherOpenSSL_def rf evp SaltSize_def write_plain_def
          split: option.split)
qed

subsection \<open>The example files\<close>

lemmas aes_eval = aes_decrypt_def KeyExpansion_def to_octet_def bxor_def gf_mults_def gf_mults1_def
  gf_mults2_def gf_mults3_def InvMixColumn_def to_state_def next_group_def Rcon_def

text \<open>The example vectors of FIPS 197, appendix C, for the three key lengths.\<close>

lemma aes_decrypt_fips197_c1:
  "aes_decrypt [0, 1, 2, 3, 4, 5, 6, 7, 8, 9, 10, 11, 12, 13, 14, 15]
     [105, 196, 224, 216, 106, 123, 4, 48, 216, 205, 183, 128, 112, 180, 197, 90]
   = [0, 17, 34, 51, 68, 85, 102, 119, 136, 153, 170, 187, 204, 221, 238, 255]"
  by (simp add: aes_eval)

lemma aes_decrypt_fips197_c2:
  "aes_decrypt [0, 1, 2, 3, 4, 5, 6, 7, 8, 9, 10, 11, 12, 13, 14, 15, 16, 17, 18, 19, 20, 21, 22, 23]
     [221, 169, 124, 164, 134, 76, 223, 224, 110, 175, 112, 160, 236, 13, 113, 145]
   = [0, 17, 34, 51, 68, 85, 102, 119, 136, 153, 170, 187, 204, 221, 238, 255]"
  by (simp add: aes_eval)

lemma aes_decrypt_fips197_c3:
  "aes_decrypt [0, 1, 2, 3, 4, 5, 6, 7, 8, 9, 10, 11, 12, 13, 14, 15,
                16, 17, 18, 19, 20, 21, 22, 23, 24, 25, 26, 27, 28, 29, 30, 31]
     [142, 162, 183, 202, 81, 103, 69, 191, 234, 252, 73, 144, 75, 73, 96, 137]
   = [0, 17, 34, 51, 68, 85, 102, 119, 136, 153, 170, 187, 204, 221, 238, 255]"
  by (simp add: aes_eval)

text \<open>The blocks of the example files.\<close>

lemma stretch_test_password:
  "stretch_spec test_password =
    [116, 101, 115, 116, 49, 50, 51, 116, 101, 115, 116, 49, 50, 51, 116, 101,
     115, 116, 49, 50, 51, 116, 101, 115, 116, 49, 50, 51, 116, 101, 115, 116]"
  by code_simp

lemma aes_header_block_1:
  "aes_decrypt
    [116, 101, 115, 116, 49, 50, 51, 116, 101, 115, 116, 49, 50, 51, 116, 101,
     115, 116, 49, 50, 51, 116, 101, 115, 116, 49, 50, 51, 116, 101, 115, 116]
    [179, 98, 182, 223, 238, 162, 196, 246, 1, 252, 151, 64, 150, 229, 138, 102]
   = [75, 202, 148, 114, 94, 131, 28, 49, 3, 10, 17, 24, 31, 38, 45, 52]"
  by (simp add: aes_eval)

lemma aes_header_block_2:
  "aes_decrypt
    [116, 101, 115, 116, 49, 50, 51, 116, 101, 115, 116, 49, 50, 51, 116, 101,
     115, 116, 49, 50, 51, 116, 101, 115, 116, 49, 50, 51, 116, 101, 115, 116]
    [181, 170, 0, 245, 62, 248, 110, 191, 0, 70, 118, 188, 161, 176, 132, 255]
   = [59, 66, 73, 80, 87, 94, 101, 108, 115, 122, 129, 136, 143, 150, 157, 164]"
  by (simp add: aes_eval)

lemma aes_header_block_3:
  "aes_decrypt
    [116, 101, 115, 116, 49, 50, 51, 116, 101, 115, 116, 49, 50, 51, 116, 101,
     115, 116, 49, 50, 51, 116, 101, 115, 116, 49, 50, 51, 116, 101, 115, 116]
    [46, 207, 3, 234, 224, 40, 41, 139, 33, 148, 203, 50, 105, 78, 120, 61]
   = [171, 178, 185, 192, 199, 206, 213, 220, 5, 16, 27, 38, 49, 60, 71, 82]"
  by (simp add: aes_eval)

lemma aes_header_block_4:
  "aes_decrypt
    [116, 101, 115, 116, 49, 50, 51, 116, 101, 115, 116, 49, 50, 51, 116, 101,
     115, 116, 49, 50, 51, 116, 101, 115, 116, 49, 50, 51, 116, 101, 115, 116]
    [211, 210, 159, 75, 3, 148, 249, 234, 231, 41, 65, 228, 127, 108, 106, 63]
   = [93, 104, 115, 126, 137, 148, 159, 170, 0, 0, 0, 0, 0, 0, 0, 10]"
  by (simp add: aes_eval)

lemma aes_header_block_4_size_11:
  "aes_decrypt
    [116, 101, 115, 116, 49, 50, 51, 116, 101, 115, 116, 49, 50, 51, 116, 101,
     115, 116, 49, 50, 51, 116, 101, 115, 116, 49, 50, 51, 116, 101, 115, 116]
    [211, 22, 163, 174, 35, 67, 191, 40, 9, 253, 8, 215, 6, 167, 134, 1]
   = [93, 104, 115, 126, 137, 148, 159, 170, 0, 0, 0, 0, 0, 0, 0, 11]"
  by (simp add: aes_eval)

lemma aes_header_block_4_size_250:
  "aes_decrypt
    [116, 101, 115, 116, 49, 50, 51, 116, 101, 115, 116, 49, 50, 51, 116, 101,
     115, 116, 49, 50, 51, 116, 101, 115, 116, 49, 50, 51, 116, 101, 115, 116]
    [95, 23, 192, 71, 130, 58, 183, 227, 74, 216, 136, 141, 13, 133, 108, 54]
   = [93, 104, 115, 126, 137, 148, 159, 170, 0, 0, 0, 0, 0, 0, 0, 250]"
  by (simp add: aes_eval)

lemma aes_body_block:
  "aes_decrypt
    [3, 10, 17, 24, 31, 38, 45, 52, 59, 66, 73, 80, 87, 94, 101, 108,
     115, 122, 129, 136, 143, 150, 157, 164, 171, 178, 185, 192, 199, 206, 213, 220]
    [29, 197, 121, 122, 250, 158, 36, 209, 200, 54, 208, 26, 246, 55, 162, 131]
   = [117, 124, 122, 79, 95, 28, 51, 55, 37, 28, 117, 120, 143, 146, 153, 172]"
  by (simp add: aes_eval)

lemma aes_body_256_last_block:
  "aes_decrypt
    [3, 10, 17, 24, 31, 38, 45, 52, 59, 66, 73, 80, 87, 94, 101, 108,
     115, 122, 129, 136, 143, 150, 157, 164, 171, 178, 185, 192, 199, 206, 213, 220]
    [103, 52, 24, 170, 202, 236, 188, 191, 188, 34, 149, 93, 62, 182, 176, 205]
   = [3, 168, 238, 89, 240, 107, 35, 52, 246, 217, 144, 221, 172, 102, 181, 147]"
  by (simp add: aes_eval)

lemma aes_test_body:
  "aes_decrypt test_ckey test_body
   = [117, 124, 122, 79, 95, 28, 51, 55, 37, 28, 117, 120, 143, 146, 153, 172]"
  unfolding test_body_def test_ckey_def by (rule aes_body_block)

lemma test_header_10_plain:
  "decrypt_header_blocks (stretch_spec test_password) test_header_10
   = [75, 202, 148, 114, 94, 131, 28, 49, 3, 10, 17, 24, 31, 38, 45, 52,
     59, 66, 73, 80, 87, 94, 101, 108, 115, 122, 129, 136, 143, 150, 157, 164,
     171, 178, 185, 192, 199, 206, 213, 220, 5, 16, 27, 38, 49, 60, 71, 82,
     93, 104, 115, 126, 137, 148, 159, 170, 0, 0, 0, 0, 0, 0, 0, 10]"
  by (simp add: decrypt_header_blocks_def stretch_test_password test_header_10_def
      aes_header_block_1 aes_header_block_2 aes_header_block_3 aes_header_block_4)

lemma test_header_11_plain:
  "decrypt_header_blocks (stretch_spec test_password) test_header_11
   = [75, 202, 148, 114, 94, 131, 28, 49, 3, 10, 17, 24, 31, 38, 45, 52,
     59, 66, 73, 80, 87, 94, 101, 108, 115, 122, 129, 136, 143, 150, 157, 164,
     171, 178, 185, 192, 199, 206, 213, 220, 5, 16, 27, 38, 49, 60, 71, 82,
     93, 104, 115, 126, 137, 148, 159, 170, 0, 0, 0, 0, 0, 0, 0, 11]"
  by (simp add: decrypt_header_blocks_def stretch_test_password test_header_11_def
      aes_header_block_1 aes_header_block_2 aes_header_block_3 aes_header_block_4_size_11)

lemma test_header_250_plain:
  "decrypt_header_blocks (stretch_spec test_password) test_header_250
   = [75, 202, 148, 114, 94, 131, 28, 49, 3, 10, 17, 24, 31, 38, 45, 52,
     59, 66, 73, 80, 87, 94, 101, 108, 115, 122, 129, 136, 143, 150, 157, 164,
     171, 178, 185, 192, 199, 206, 213, 220, 5, 16, 27, 38, 49, 60, 71, 82,
     93, 104, 115, 126, 137, 148, 159, 170, 0, 0, 0, 0, 0, 0, 0, 250]"
  by (simp add: decrypt_header_blocks_def stretch_test_password test_header_250_def
      aes_header_block_1 aes_header_block_2 aes_header_block_3 aes_header_block_4_size_250)

lemma length_test [simp]:
  "length test_header_10 = 64" "length test_header_11 = 64" "length test_header_250 = 64"
  "length test_body = 16" "length test_body_256 = 256" "length test_ckey = 32" "length test_iv = 16"
  "test_password \<noteq> []"
  by (simp_all add: test_header_10_def test_header_11_def test_header_250_def test_body_def
      test_body_256_def test_ckey_def test_iv_def test_password_def)

lemma test_file_parts:
  assumes "length hdr = 64"
  shows "take 64 (drop 16 (test_file flag hdr body)) = hdr"
    and "drop 80 (test_file flag hdr body) = body"
    and "length (test_file flag hdr body) = 80 + length body"
    and "checkCipheredFile (test_file flag hdr body) = \<lparr>compressed = (flag = 1), encryptVersion = 2\<rparr>"
  using assms
  by (simp_all add: test_file_def QNAPFilePrefixV2Bytes_def QNAPFilePrefixV1Bytes_def OpenSSLPrefix_def
      checkCipheredFile_def ReadFull_def)

lemma test_header_10_deciphered:
  "seek_cipher flt 16 = None \<Longrightarrow>
   decipherV2Header flt (test_file flag test_header_10 body) (Some test_password)
   = Returns (Inr \<lparr>size_field = 10, ckey = test_ckey, salt = test_iv\<rparr>)"
  by (subst decipherV2Header_Returns)
     (simp_all add: test_file_parts test_header_10_plain BigEndian_Uint64_def test_ckey_def test_iv_def)

lemma test_header_11_deciphered:
  "seek_cipher flt 16 = None \<Longrightarrow>
   decipherV2Header flt (test_file flag test_header_11 body) (Some test_password)
   = Returns (Inr \<lparr>size_field = 11, ckey = test_ckey, salt = test_iv\<rparr>)"
  by (subst decipherV2Header_Returns)
     (simp_all add: test_file_parts test_header_11_plain BigEndian_Uint64_def test_ckey_def test_iv_def)

lemma test_header_250_deciphered:
  "seek_cipher flt 16 = None \<Longrightarrow>
   decipherV2Header flt (test_file flag test_header_250 body) (Some test_password)
   = Returns (Inr \<lparr>size_field = 250, ckey = test_ckey, salt = test_iv\<rparr>)"
  by (subst decipherV2Header_Returns)
     (simp_all add: test_file_parts test_header_250_plain BigEndian_Uint64_def test_ckey_def test_iv_def)

lemma test_body_deciphered:
  assumes "length hdr = 64" "encryptVersion ftype = 2" "seek_cipher flt 80 = None"
  shows "doDecipher flt ftype \<lparr>size_field = n, ckey = test_ckey, salt = test_iv\<rparr>
           (test_file flag hdr test_body) 80 NewWriter
         = (\<lparr>flushed = [112, 108, 97, 105, 110, 32, 116, 101, 120, 116], pending = []\<rparr>, Returns (10, None))"
proof -
  have rd: "reader_Read (test_file flag hdr test_body) \<lparr>rbuf = [], rpos = 80\<rparr> 256
            = (Inr test_body, \<lparr>rbuf = [], rpos = 96\<rparr>)"
    using assms(1) by (simp add: reader_Read_def test_file_parts Let_def) (simp add: test_body_def)
  have cb: "CryptBlocks test_ckey test_iv test_body
            = Returns ([112, 108, 97, 105, 110, 32, 116, 101, 120, 116, 6, 6, 6, 6, 6, 6], test_body)"
    by (simp add: CryptBlocks_def aes_test_body) (simp add: test_body_def test_iv_def)
  have tr: "PKCS5Trimming [112, 108, 97, 105, 110, 32, 116, 101, 120, 116, 6, 6, 6, 6, 6, 6] 16
            = Returns (Inr [112, 108, 97, 105, 110, 32, 116, 101, 120, 116])"
    by (simp add: PKCS5Trimming_def)
  show ?thesis
    using assms(2,3)
    by (simp add: doDecipher_def HeaderV2Length_def NewCipher_def)
       (subst decipher_loop.simps, simp add: rd cb tr writer_Write_def writer_Flush_def NewWriter_def)
qed

text \<open>
  The last block of \<open>test_body_256\<close> decrypts, with the block before it, to the last
  ten bytes of the plaintext and six bytes of padding.
\<close>

lemma test_body_256_padding:
  "map2 (XOR) (aes_decrypt test_ckey (drop 240 test_body_256)) (take 16 (drop 224 test_body_256))
   = [240, 241, 242, 243, 244, 245, 246, 247, 248, 249, 6, 6, 6, 6, 6, 6]"
  by (simp add: test_body_256_def test_ckey_def aes_body_256_last_block)

text \<open>
  The file of the salted format: the digests that derive the key and the vector from
  the password \<open>test123\<close> and from the password \<open>wrong\<close>, and the blocks of the body
  under the two keys.
\<close>

lemma md5_test_password_1:
  "md5_Sum
     [116, 101, 115, 116, 49, 50, 51, 1, 35, 69, 103, 137, 171, 205, 239]
   = [212, 186, 248, 37, 62, 140, 248, 226, 111, 28, 216, 155, 225, 140, 176, 190]"
  by (simp add: md5_eval)

lemma md5_test_password_2:
  "md5_Sum
     [212, 186, 248, 37, 62, 140, 248, 226, 111, 28, 216, 155, 225, 140, 176, 190,
     116, 101, 115, 116, 49, 50, 51, 1, 35, 69, 103, 137, 171, 205, 239]
   = [137, 162, 39, 28, 218, 171, 162, 106, 160, 7, 165, 65, 57, 45, 113, 47]"
  by (simp add: md5_eval)

lemma md5_test_password_3:
  "md5_Sum
     [137, 162, 39, 28, 218, 171, 162, 106, 160, 7, 165, 65, 57, 45, 113, 47,
     116, 101, 115, 116, 49, 50, 51, 1, 35, 69, 103, 137, 171, 205, 239]
   = [202, 42, 252, 91, 234, 84, 158, 203, 243, 215, 253, 233, 197, 163, 126, 60]"
  by (simp add: md5_eval)

lemma md5_wrong_password_1:
  "md5_Sum
     [119, 114, 111, 110, 103, 1, 35, 69, 103, 137, 171, 205, 239]
   = [90, 58, 24, 138, 223, 123, 249, 186, 25, 15, 98, 244, 155, 90, 70, 128]"
  by (simp add: md5_eval)

lemma md5_wrong_password_2:
  "md5_Sum
     [90, 58, 24, 138, 223, 123, 249, 186, 25, 15, 98, 244, 155, 90, 70, 128,
     119, 114, 111, 110, 103, 1, 35, 69, 103, 137, 171, 205, 239]
   = [84, 92, 61, 195, 226, 158, 78, 229, 33, 77, 105, 7, 102, 205, 238, 201]"
  by (simp add: md5_eval)

lemma md5_wrong_password_3:
  "md5_Sum
     [84, 92, 61, 195, 226, 158, 78, 229, 33, 77, 105, 7, 102, 205, 238, 201,
     119, 114, 111, 110, 103, 1, 35, 69, 103, 137, 171, 205, 239]
   = [231, 180, 219, 148, 106, 218, 223, 236, 177, 65, 222, 246, 130, 149, 206, 104]"
  by (simp add: md5_eval)

lemma salted_kdf_test_password:
  "salted_kdf_spec md5_Sum test_password salted_salt = (salted_key, salted_iv)"
  by (simp add: salted_kdf_spec_def test_password_def salted_salt_def salted_key_def salted_iv_def
      md5_test_password_1 md5_test_password_2 md5_test_password_3)

lemma salted_kdf_wrong_password:
  "salted_kdf_spec md5_Sum wrong_password salted_salt = (wrong_key, wrong_iv)"
  by (simp add: salted_kdf_spec_def wrong_password_def salted_salt_def wrong_key_def wrong_iv_def
      md5_wrong_password_1 md5_wrong_password_2 md5_wrong_password_3)

lemma aes_salted_block_1:
  "aes_decrypt
    [212, 186, 248, 37, 62, 140, 248, 226, 111, 28, 216, 155, 225, 140, 176, 190,
     137, 162, 39, 28, 218, 171, 162, 106, 160, 7, 165, 65, 57, 45, 113, 47]
    [255, 140, 8, 124, 34, 225, 116, 202, 126, 147, 243, 127, 223, 241, 9, 57]
   = [136, 112, 148, 98, 219, 21, 199, 237, 160, 142, 85, 92, 207, 131, 126, 60]"
  by (simp add: aes_eval)

lemma aes_salted_block_2:
  "aes_decrypt
    [212, 186, 248, 37, 62, 140, 248, 226, 111, 28, 216, 155, 225, 140, 176, 190,
     137, 162, 39, 28, 218, 171, 162, 106, 160, 7, 165, 65, 57, 45, 113, 47]
    [88, 52, 154, 34, 137, 83, 245, 181, 194, 121, 112, 218, 127, 156, 29, 236]
   = [252, 157, 136, 60, 34, 195, 81, 142, 62, 179, 243, 93, 222, 86, 173, 25]"
  by (simp add: aes_eval)

lemma aes_salted_block_3:
  "aes_decrypt
    [212, 186, 248, 37, 62, 140, 248, 226, 111, 28, 216, 155, 225, 140, 176, 190,
     137, 162, 39, 28, 218, 171, 162, 106, 160, 7, 165, 65, 57, 45, 113, 47]
    [215, 76, 34, 57, 50, 140, 33, 189, 178, 10, 56, 114, 182, 211, 118, 123]
   = [145, 188, 210, 242, 71, 60, 48, 105, 83, 55, 100, 254, 85, 177, 95, 100]"
  by (simp add: aes_eval)

lemma aes_salted_block_4:
  "aes_decrypt
    [212, 186, 248, 37, 62, 140, 248, 226, 111, 28, 216, 155, 225, 140, 176, 190,
     137, 162, 39, 28, 218, 171, 162, 106, 160, 7, 165, 65, 57, 45, 113, 47]
    [114, 33, 78, 111, 17, 28, 179, 105, 91, 127, 40, 8, 221, 197, 69, 163]
   = [215, 67, 45, 54, 61, 131, 46, 178, 189, 5, 55, 125, 185, 220, 121, 116]"
  by (simp add: aes_eval)

lemma aes_wrong_key_block_1:
  "aes_decrypt
    [90, 58, 24, 138, 223, 123, 249, 186, 25, 15, 98, 244, 155, 90, 70, 128,
     84, 92, 61, 195, 226, 158, 78, 229, 33, 77, 105, 7, 102, 205, 238, 201]
    [255, 140, 8, 124, 34, 225, 116, 202, 126, 147, 243, 127, 223, 241, 9, 57]
   = [246, 36, 65, 2, 87, 22, 193, 171, 43, 221, 100, 204, 190, 212, 32, 245]"
  by (simp add: aes_eval)

lemma aes_wrong_key_block_2:
  "aes_decrypt
    [90, 58, 24, 138, 223, 123, 249, 186, 25, 15, 98, 244, 155, 90, 70, 128,
     84, 92, 61, 195, 226, 158, 78, 229, 33, 77, 105, 7, 102, 205, 238, 201]
    [88, 52, 154, 34, 137, 83, 245, 181, 194, 121, 112, 218, 127, 156, 29, 236]
   = [66, 158, 160, 77, 177, 162, 58, 226, 166, 100, 100, 96, 139, 183, 74, 110]"
  by (simp add: aes_eval)

lemma aes_wrong_key_block_3:
  "aes_decrypt
    [90, 58, 24, 138, 223, 123, 249, 186, 25, 15, 98, 244, 155, 90, 70, 128,
     84, 92, 61, 195, 226, 158, 78, 229, 33, 77, 105, 7, 102, 205, 238, 201]
    [215, 76, 34, 57, 50, 140, 33, 189, 178, 10, 56, 114, 182, 211, 118, 123]
   = [238, 157, 213, 146, 111, 148, 26, 123, 239, 235, 84, 148, 109, 227, 211, 52]"
  by (simp add: aes_eval)

lemma aes_wrong_key_block_4:
  "aes_decrypt
    [90, 58, 24, 138, 223, 123, 249, 186, 25, 15, 98, 244, 155, 90, 70, 128,
     84, 92, 61, 195, 226, 158, 78, 229, 33, 77, 105, 7, 102, 205, 238, 201]
    [114, 33, 78, 111, 17, 28, 179, 105, 91, 127, 40, 8, 221, 197, 69, 163]
   = [146, 200, 80, 172, 147, 30, 33, 17, 245, 33, 114, 245, 95, 120, 151, 14]"
  by (simp add: aes_eval)

lemma cbc_blocks_numeral:
  "cbc_blocks key (numeral n) iv src =
     map2 (XOR) (aes_decrypt key (take 16 src)) iv @ cbc_blocks key (pred_numeral n) (take 16 src) (drop 16 src)"
  by (simp add: numeral_eq_Suc)

lemma salted_file_parts:
  "checkCipheredFile salted_file = \<lparr>compressed = False, encryptVersion = 0\<rparr>"
  "take 8 (drop 8 salted_file) = salted_salt"
  "drop 16 salted_file = salted_body"
  "length salted_file = 80" "length salted_body = 64"
  by (simp_all add: salted_file_def salted_salt_def salted_body_def OpenSSLPrefix_def
      checkCipheredFile_def ReadFull_def)

lemma salted_body_CryptBlocks:
  "CryptBlocks salted_key salted_iv salted_body
   = Returns ([66, 90, 104, 57, 49, 65, 89, 38, 83, 89, 168, 181, 10, 32, 0, 0,
              3, 17, 128, 64, 0, 34, 37, 68, 64, 32, 0, 34, 1, 167, 164, 32,
              201, 136, 72, 208, 206, 111, 197, 220, 145, 78, 20, 36, 42, 45, 66, 136,
              0, 15, 15, 15, 15, 15, 15, 15, 15, 15, 15, 15, 15, 15, 15, 15],
              [114, 33, 78, 111, 17, 28, 179, 105, 91, 127, 40, 8, 221, 197, 69, 163])"
  by (simp add: CryptBlocks_def salted_file_parts cbc_blocks_numeral)
     (simp add: salted_key_def salted_iv_def salted_body_def
        aes_salted_block_1 aes_salted_block_2 aes_salted_block_3 aes_salted_block_4)

lemma salted_body_CryptBlocks_wrong_key:
  "CryptBlocks wrong_key wrong_iv salted_body
   = Returns ([17, 144, 154, 150, 61, 204, 30, 71, 154, 156, 186, 58, 60, 65, 238, 157,
              189, 18, 168, 49, 147, 67, 78, 40, 216, 247, 151, 31, 84, 70, 67, 87,
              182, 169, 79, 176, 230, 199, 239, 206, 45, 146, 36, 78, 18, 127, 206, 216,
              69, 132, 114, 149, 161, 146, 0, 172, 71, 43, 74, 135, 233, 171, 225, 117],
              [114, 33, 78, 111, 17, 28, 179, 105, 91, 127, 40, 8, 221, 197, 69, 163])"
  by (simp add: CryptBlocks_def salted_file_parts cbc_blocks_numeral)
     (simp add: wrong_key_def wrong_iv_def salted_body_def
        aes_wrong_key_block_1 aes_wrong_key_block_2 aes_wrong_key_block_3 aes_wrong_key_block_4)

text \<open>
  With the key of the password \<open>test123\<close> the body deciphers to \<open>bzip2_text\<close>; with
  the key of the password \<open>wrong\<close> the last byte of the chunk is 117, which is no
  padding.
\<close>

lemma salted_read:
  "reader_Read salted_file \<lparr>rbuf = [], rpos = 16\<rparr> 256 = (Inr salted_body, \<lparr>rbuf = [], rpos = 80\<rparr>)"
  by (simp add: reader_Read_def salted_file_parts Let_def) (simp add: salted_body_def)

lemma salted_body_deciphered:
  assumes "encryptVersion ftype = 0"
  shows "doDecipher flt ftype \<lparr>size_field = 0, ckey = salted_key, salt = salted_iv\<rparr> salted_file 16 NewWriter
         = (\<lparr>flushed = bzip2_text, pending = []\<rparr>, Returns (49, None))"
proof -
  have tr: "PKCS5Trimming [66, 90, 104, 57, 49, 65, 89, 38, 83, 89, 168, 181, 10, 32, 0, 0,
              3, 17, 128, 64, 0, 34, 37, 68, 64, 32, 0, 34, 1, 167, 164, 32,
              201, 136, 72, 208, 206, 111, 197, 220, 145, 78, 20, 36, 42, 45, 66, 136,
              0, 15, 15, 15, 15, 15, 15, 15, 15, 15, 15, 15, 15, 15, 15, 15] 16
            = Returns (Inr bzip2_text)"
    by (simp add: PKCS5Trimming_def bzip2_text_def)
  have len: "length salted_key = 32" "length salted_iv = 16" "length bzip2_text = 49"
    by (simp_all add: salted_key_def salted_iv_def bzip2_text_def)
  show ?thesis
    using assms
    by (simp add: doDecipher_def NewCipher_def len)
       (subst decipher_loop.simps,
        simp add: salted_read salted_body_CryptBlocks salted_file_parts tr len
          writer_Write_def writer_Flush_def NewWriter_def)
qed

lemma salted_body_wrong_key:
  assumes "encryptVersion ftype = 0"
  shows "doDecipher flt ftype \<lparr>size_field = 0, ckey = wrong_key, salt = wrong_iv\<rparr> salted_file 16 NewWriter
         = (NewWriter,
            Returns (0, Some (Errorf_wv ''%w: %v'' ErrDecipher
                               (Errorf_w ''%w: invalid padding, maybe incorrect password'' ErrDecipher))))"
proof -
  have tr: "PKCS5Trimming [17, 144, 154, 150, 61, 204, 30, 71, 154, 156, 186, 58, 60, 65, 238, 157,
              189, 18, 168, 49, 147, 67, 78, 40, 216, 247, 151, 31, 84, 70, 67, 87,
              182, 169, 79, 176, 230, 199, 239, 206, 45, 146, 36, 78, 18, 127, 206, 216,
              69, 132, 114, 149, 161, 146, 0, 172, 71, 43, 74, 135, 233, 171, 225, 117] 16
            = Returns (Inl (Errorf_w ''%w: invalid padding, maybe incorrect password'' ErrDecipher))"
    by (simp add: PKCS5Trimming_def)
  have len: "length wrong_key = 32" "length wrong_iv = 16"
    by (simp_all add: wrong_key_def wrong_iv_def)
  show ?thesis
    using assms
    by (simp add: doDecipher_def NewCipher_def len)
       (subst decipher_loop.simps,
        simp add: salted_read salted_body_CryptBlocks_wrong_key salted_file_parts tr)
qed

text \<open>
  The whole run on the file, with the password \<open>test123\<close> in the request: the plain
  file holds the text, whatever it held before and whatever the variable of the
  package is.
\<close>

lemma salted_file_deciphered:
  "DecipherFile text_codecs no_faults g test_param
     \<lparr>cipher_data = salted_file, plain_data = q, tmp_data = None\<rparr>
   = Some (Returns None,
           \<lparr>cipher_data = salted_file, plain_data = Some [112, 108, 97, 105, 110, 32, 116, 101, 120, 116], tmp_data = None\<rparr>)"
proof -
  let ?s = "\<lparr>cipher_data = salted_file, plain_data = q, tmp_data = None\<rparr>"
  have kdf: "salted_kdf_spec md5_Sum (Password test_param) (take 8 (drop 8 (cipher_data ?s)))
             = (salted_key, salted_iv)"
    by (simp add: test_param_def salted_file_parts salted_kdf_test_password)
  have dd: "doDecipher no_faults (checkCipheredFile (cipher_data ?s))
              \<lparr>size_field = 0, ckey = salted_key, salt = salted_iv\<rparr> (cipher_data ?s) 16 NewWriter
            = (\<lparr>flushed = bzip2_text, pending = []\<rparr>, Returns (49, None))"
    by (simp add: salted_file_parts salted_body_deciphered)
  from DecipherFile_GenericSalted [where s = ?s and flt = no_faults and lib = text_codecs and g = g, OF _ _ _ _ _ _ _ kdf dd]
  show ?thesis
    by (simp add: salted_file_parts text_codecs_def)
qed

section \<open>The claims\<close>

text \<open>
  C1. Padding removal is claimed to fail exactly when the padding length, the value of
  the last decrypted byte, is 0, exceeds the block size, or is at least the length of
  the chunk. The code checks the last two conditions only (\<open>PKCS5Trimming_fails_iff\<close>):
  on a final chunk of 16 bytes that ends with the byte 0, \<open>PKCS5Trimming\<close> returns the
  whole chunk, the byte 0 included, and no error.
\<close>

theorem C1_zero_padding_accepted:
  "PKCS5Trimming [80, 75, 67, 83, 53, 32, 112, 97, 100, 100, 105, 110, 103, 33, 33, 0] 16
   = Returns (Inr [80, 75, 67, 83, 53, 32, 112, 97, 100, 100, 105, 110, 103, 33, 33, 0])"
  by (simp add: PKCS5Trimming_def)

text \<open>
  C2. The streaming decryption is claimed to succeed on every body whose length is a
  positive multiple of 16 and whose last block carries valid padding, bodies of a
  multiple of 256 bytes included. The loop leaves with success only after a chunk of
  fewer than 256 bytes: after a last full chunk the next read returns the end of the
  file, which the loop returns as an error (\<open>doDecipher_whole_chunks\<close>). The example
  file has a body of 256 bytes, the encryption of 250 bytes and six bytes of padding,
  with the right password and the right size in its header: \<open>DecipherFile\<close> returns
  the decipher error that wraps \<open>EOF\<close> and leaves the plain file empty (the 256
  bytes decrypted are in the buffer of the writer, which is not flushed), although the
  last block decrypts to valid padding.
\<close>

theorem C2_body_of_256_bytes_fails:
  "DecipherFile no_codecs no_faults (Some test_password) test_param
     \<lparr>cipher_data = test_file 0 test_header_250 test_body_256, plain_data = None, tmp_data = None\<rparr>
   = Some (Returns (Some (Errorf_wv ''%w: %v'' ErrDecipher EOF)),
           \<lparr>cipher_data = test_file 0 test_header_250 test_body_256, plain_data = Some [],
             tmp_data = None\<rparr>) \<and>
   PKCS5Trimming
     (map2 (XOR) (aes_decrypt test_ckey (drop 240 test_body_256)) (take 16 (drop 224 test_body_256))) 16
   = Returns (Inr [240, 241, 242, 243, 244, 245, 246, 247, 248, 249])"
proof -
  let ?ft = "\<lparr>compressed = False, encryptVersion = 2\<rparr>"
  let ?s = "\<lparr>cipher_data = test_file 0 test_header_250 test_body_256, plain_data = Some [], tmp_data = None\<rparr>"
  let ?hdr = "\<lparr>size_field = 250, ckey = test_ckey, salt = test_iv\<rparr>"
  have h: "decipherV2Header no_faults (cipher_data ?s) (Some test_password) = Returns (Inr ?hdr)"
    by (simp add: test_header_250_deciphered)
  have d: "snd (doDecipher no_faults ?ft ?hdr (cipher_data ?s) 80 NewWriter)
           = Returns (256, Some (Errorf_wv ''%w: %v'' ErrDecipher EOF))"
    by (subst doDecipher_whole_chunks) (simp_all add: test_file_parts)
  have f: "flushed (fst (doDecipher no_faults ?ft ?hdr (cipher_data ?s) 80 NewWriter)) = []"
    by (rule doDecipher_one_chunk) (simp_all add: test_file_parts)
  obtain w where dd: "doDecipher no_faults ?ft ?hdr (cipher_data ?s) 80 NewWriter
      = (w, Returns (256, Some (Errorf_wv ''%w: %v'' ErrDecipher EOF)))"
    using d by (cases "doDecipher no_faults ?ft ?hdr (cipher_data ?s) 80 NewWriter") simp
  with f have fw: "flushed w = []" by simp
  from h dd fw have "doDecipherV2 no_codecs no_faults ?ft (Some test_password) ?s
        = (Returns (0, Some (Errorf_wv ''%w: %v'' ErrDecipher EOF)), ?s)"
    by (simp add: doDecipherV2_def write_plain_def)
  then have "DecipherFile no_codecs no_faults (Some test_password) test_param
        \<lparr>cipher_data = test_file 0 test_header_250 test_body_256, plain_data = None, tmp_data = None\<rparr>
     = Some (Returns (Some (Errorf_wv ''%w: %v'' ErrDecipher EOF)), ?s)"
    by (simp add: DecipherFile_V2 test_file_parts)
  moreover have "PKCS5Trimming
     (map2 (XOR) (aes_decrypt test_ckey (drop 240 test_body_256)) (take 16 (drop 224 test_body_256))) 16
     = Returns (Inr [240, 241, 242, 243, 244, 245, 246, 247, 248, 249])"
    unfolding test_body_256_padding by (simp add: PKCS5Trimming_def)
  ultimately show ?thesis by (rule conjI)
qed

text \<open>
  C3. The claim is that the plain file is never created for a rejected format,
  LegacyV1 included. \<open>DecipherFile\<close> creates it whenever the detected version is at
  least 0, and version 1 is: on a file that holds the magic of version 1 the plain file
  exists, empty, when the call returns its error.
\<close>

theorem C3_LegacyV1_counterexample:
  "detect_spec (cipher_data \<lparr>cipher_data = [7, 95, 95, 81, 67, 83, 95, 95], plain_data = None, tmp_data = None\<rparr>)
     = LegacyV1 \<and>
   DecipherFile no_codecs no_faults (Some [116, 101, 115, 116])
     \<lparr>CipheredFileName = ''in'', PlainFileName = ''out'', Password = [116, 101, 115, 116], Verbose = False\<rparr>
     \<lparr>cipher_data = [7, 95, 95, 81, 67, 83, 95, 95], plain_data = None, tmp_data = None\<rparr>
   = Some (Returns (Some (Errorf_w ''%w: HBS cipher type 1 is currently not supported'' NoCipherFile)),
           \<lparr>cipher_data = [7, 95, 95, 81, 67, 83, 95, 95], plain_data = Some [], tmp_data = None\<rparr>)"
  by (simp add: DecipherFile_def checkCipheredFile_def ReadFull_def detect_spec_def no_faults_def
      QNAPFilePrefixV2Bytes_def QNAPFilePrefixV1Bytes_def OpenSSLPrefix_def)

text \<open>
  C3, as amended. Take an input that can be opened. If its format is Unrecognized,
  \<open>DecipherFile\<close> returns \<open>NoCipherFile\<close> and changes no file. If its format is
  recognised (GenericSalted, LegacyV1 or VersionedV2) and the plain file cannot be
  created, it returns the error of the creation and changes no file. If the plain file
  can be created, \<open>DecipherFile\<close> returns or panics, never runs for ever; the plain
  file exists afterwards; and the result and the files are the same whether or not the
  plain file existed before and whatever it held, for it is created empty before the
  format is dispatched. On every LegacyV1 input the call then returns the error of the
  unsupported format, with the plain file empty.
\<close>

theorem C3_output_file_creation:
  assumes "open_cipher flt = None"
  shows "(detect_spec (cipher_data s) = Unrecognized \<longrightarrow>
            DecipherFile lib flt password param s = Some (Returns (Some NoCipherFile), s)) \<and>
         (detect_spec (cipher_data s) \<noteq> Unrecognized \<longrightarrow>
            (\<forall>e. create_plain flt = Some e \<longrightarrow>
               DecipherFile lib flt password param s
               = Some (Returns (Some (Errorf_wv ''%w: invalid target file: %v'' ErrDecipher e)), s)) \<and>
            (create_plain flt = None \<longrightarrow>
               (\<exists>res s'. DecipherFile lib flt password param s = Some (res, s') \<and> plain_data s' \<noteq> None \<and>
                  (\<forall>q. DecipherFile lib flt password param (s\<lparr>plain_data := q\<rparr>) = Some (res, s'))) \<and>
               (detect_spec (cipher_data s) = LegacyV1 \<longrightarrow>
                  DecipherFile lib flt password param s
                  = Some (Returns (Some (Errorf_w ''%w: HBS cipher type 1 is currently not supported''
                                           NoCipherFile)),
                          s\<lparr>plain_data := Some []\<rparr>))))"
proof (intro conjI impI allI)
  assume "detect_spec (cipher_data s) = Unrecognized"
  then have "encryptVersion (checkCipheredFile (cipher_data s)) = -1"
    by (simp add: detect_spec_Unrecognized_iff)
  with assms show "DecipherFile lib flt password param s = Some (Returns (Some NoCipherFile), s)"
    by (simp add: DecipherFile_def)
next
  fix e
  assume "detect_spec (cipher_data s) \<noteq> Unrecognized" and "create_plain flt = Some e"
  with assms detect_spec_recognised [of "cipher_data s"]
  show "DecipherFile lib flt password param s
        = Some (Returns (Some (Errorf_wv ''%w: invalid target file: %v'' ErrDecipher e)), s)"
    by (simp add: DecipherFile_def)
next
  assume rec: "detect_spec (cipher_data s) \<noteq> Unrecognized" and cp: "create_plain flt = None"
  then have v: "0 \<le> encryptVersion (checkCipheredFile (cipher_data s))"
    by (simp add: detect_spec_recognised)
  let ?s1 = "s\<lparr>plain_data := Some []\<rparr>"
  have p1: "plain_data ?s1 \<noteq> None" by simp
  obtain res s' where run: "DecipherFile lib flt password param s = Some (res, s')"
    using DecipherFile_returns [of lib flt password param s] by auto
  have "DecipherFile lib flt password param (s\<lparr>plain_data := q\<rparr>) = DecipherFile lib flt password param s" for q
    using assms cp v by (simp add: DecipherFile_def)
  with run have same: "DecipherFile lib flt password param (s\<lparr>plain_data := q\<rparr>) = Some (res, s')" for q
    by simp
  from checkCipheredFile_versions [of "cipher_data s"] v
  consider "encryptVersion (checkCipheredFile (cipher_data s)) = 0"
    | "encryptVersion (checkCipheredFile (cipher_data s)) = 1"
    | "encryptVersion (checkCipheredFile (cipher_data s)) = 2" by auto
  then have "plain_data s' \<noteq> None"
  proof cases
    case 1
    with run assms cp obtain r where
      "doDecipherOpenSSL lib flt (checkCipheredFile (cipher_data s)) (Password param) ?s1 = Some (r, s')"
      by (auto simp: DecipherFile_def)
    from doDecipherOpenSSL_keeps_plain [OF this p1] show ?thesis .
  next
    case 2
    with run assms cp show ?thesis by (auto simp: DecipherFile_def)
  next
    case 3
    with run assms cp
    have "s' = snd (doDecipherV2 lib flt (checkCipheredFile (cipher_data s)) password ?s1)"
      by (auto simp: DecipherFile_def split: prod.splits)
    with doDecipherV2_keeps_plain [OF p1] show ?thesis by simp
  qed
  with run same
  show "\<exists>res s'. DecipherFile lib flt password param s = Some (res, s') \<and> plain_data s' \<noteq> None \<and>
          (\<forall>q. DecipherFile lib flt password param (s\<lparr>plain_data := q\<rparr>) = Some (res, s'))"
    by blast
next
  assume "detect_spec (cipher_data s) = LegacyV1" and cp: "create_plain flt = None"
  then have "format_of (checkCipheredFile (cipher_data s)) = LegacyV1"
    by (simp add: checkCipheredFile_format)
  then have "encryptVersion (checkCipheredFile (cipher_data s)) = 1"
    by (auto simp: format_of_def split: if_splits)
  with assms cp
  show "DecipherFile lib flt password param s
        = Some (Returns (Some (Errorf_w ''%w: HBS cipher type 1 is currently not supported'' NoCipherFile)),
                s\<lparr>plain_data := Some []\<rparr>)"
    by (simp add: DecipherFile_def)
qed

text \<open>
  Three instances. The example file of the salted format is deciphered into the plain
  file, the same whether that file was missing or held three bytes before. A file of
  the magic of version 1 and two more bytes is rejected, and a plain file of two bytes
  is left empty. A file of three bytes is not recognised, and a plain file of two bytes
  keeps them.
\<close>

theorem C3_output_file_creation_witness:
  "open_cipher no_faults = None \<and> create_plain no_faults = None \<and>
   detect_spec salted_file = GenericSalted \<and>
   DecipherFile text_codecs no_faults None test_param
     \<lparr>cipher_data = salted_file, plain_data = None, tmp_data = None\<rparr>
   = Some (Returns None,
           \<lparr>cipher_data = salted_file, plain_data = Some [112, 108, 97, 105, 110, 32, 116, 101, 120, 116],
             tmp_data = None\<rparr>) \<and>
   DecipherFile text_codecs no_faults None test_param
     \<lparr>cipher_data = salted_file, plain_data = Some [1, 2, 3], tmp_data = None\<rparr>
   = Some (Returns None,
           \<lparr>cipher_data = salted_file, plain_data = Some [112, 108, 97, 105, 110, 32, 116, 101, 120, 116],
             tmp_data = None\<rparr>) \<and>
   detect_spec [7, 95, 95, 81, 67, 83, 95, 95, 0, 1] = LegacyV1 \<and>
   DecipherFile text_codecs no_faults None test_param
     \<lparr>cipher_data = [7, 95, 95, 81, 67, 83, 95, 95, 0, 1], plain_data = Some [4, 5], tmp_data = None\<rparr>
   = Some (Returns (Some (Errorf_w ''%w: HBS cipher type 1 is currently not supported'' NoCipherFile)),
           \<lparr>cipher_data = [7, 95, 95, 81, 67, 83, 95, 95, 0, 1], plain_data = Some [], tmp_data = None\<rparr>) \<and>
   detect_spec [1, 2, 3] = Unrecognized \<and>
   DecipherFile text_codecs no_faults None test_param
     \<lparr>cipher_data = [1, 2, 3], plain_data = Some [4, 5], tmp_data = None\<rparr>
   = Some (Returns (Some NoCipherFile),
           \<lparr>cipher_data = [1, 2, 3], plain_data = Some [4, 5], tmp_data = None\<rparr>)"
proof -
  let ?s = "\<lparr>cipher_data = salted_file, plain_data = None, tmp_data = None\<rparr>"
  let ?l = "\<lparr>cipher_data = [7, 95, 95, 81, 67, 83, 95, 95, 0, 1], plain_data = Some [4, 5], tmp_data = None\<rparr>"
  let ?u = "\<lparr>cipher_data = [1, 2, 3], plain_data = Some [4, 5], tmp_data = None\<rparr>"
  have o: "open_cipher no_faults = None" and c: "create_plain no_faults = None"
    by simp_all
  have ds: "detect_spec salted_file = GenericSalted"
    by (simp add: detect_spec_def salted_file_def OpenSSLPrefix_def salted_salt_def salted_body_def)
  have dl: "detect_spec [7, 95, 95, 81, 67, 83, 95, 95, 0, 1] = LegacyV1"
    by (simp add: detect_spec_def OpenSSLPrefix_def QNAPFilePrefixV1Bytes_def)
  have du: "detect_spec [1, 2, 3] = Unrecognized"
    by (simp add: detect_spec_def)
  have run: "DecipherFile text_codecs no_faults None test_param ?s
     = Some (Returns None,
           \<lparr>cipher_data = salted_file, plain_data = Some [112, 108, 97, 105, 110, 32, 116, 101, 120, 116],
             tmp_data = None\<rparr>)"
    by (rule salted_file_deciphered)
  from C3_output_file_creation [OF o, of ?s text_codecs None test_param] ds c run
  have "DecipherFile text_codecs no_faults None test_param (?s\<lparr>plain_data := Some [1, 2, 3]\<rparr>)
     = Some (Returns None,
           \<lparr>cipher_data = salted_file, plain_data = Some [112, 108, 97, 105, 110, 32, 116, 101, 120, 116],
             tmp_data = None\<rparr>)"
    by auto
  moreover from C3_output_file_creation [OF o, of ?l text_codecs None test_param] dl c
  have "DecipherFile text_codecs no_faults None test_param ?l
     = Some (Returns (Some (Errorf_w ''%w: HBS cipher type 1 is currently not supported'' NoCipherFile)),
             ?l\<lparr>plain_data := Some []\<rparr>)"
    by simp
  moreover from C3_output_file_creation [OF o, of ?u text_codecs None test_param] du
  have "DecipherFile text_codecs no_faults None test_param ?u = Some (Returns (Some NoCipherFile), ?u)"
    by simp
  ultimately show ?thesis
    using o c ds dl du run by simp
qed

text \<open>
  C4. The temporary file is claimed to be removed on every way out of the operation,
  a failed seek included. In \<open>doDecipherV2\<close> the return after the failed seek on the
  temporary file comes before the removal
  (\<open>doDecipherV2_seek_failure_leaves_tmp\<close>), while the deferred removal of
  \<open>doDecipherOpenSSL\<close> covers it (\<open>doDecipherOpenSSL_removes_tmp\<close>). On the
  compressed example file, with a seek that fails, \<open>DecipherFile\<close> returns the error
  of the seek and the temporary file is still there, with the decrypted bytes in it.
\<close>

theorem C4_seek_failure_leaves_tmp_file:
  "DecipherFile no_codecs seek_tmp_fails (Some test_password) test_param
     \<lparr>cipher_data = test_file 1 test_header_10 test_body, plain_data = None, tmp_data = None\<rparr>
   = Some (Returns (Some (Errorf_w ''%w'' (OsError ''seek''))),
           \<lparr>cipher_data = test_file 1 test_header_10 test_body, plain_data = Some [],
             tmp_data = Some [112, 108, 97, 105, 110, 32, 116, 101, 120, 116]\<rparr>)"
  by (simp add: DecipherFile_V2 test_file_parts doDecipherV2_def test_header_10_deciphered
      test_body_deciphered)

text \<open>
  C5. The claim is that, without compression, the success of the operation does not
  depend on a comparison of the count of bytes emitted with the size in the header. Two
  example files differ in that size only, 10 and 11; both decrypt to the same ten
  bytes, which reach the plain file; the first call succeeds and the second returns
  \<open>ErrDecipher\<close>.
\<close>

theorem C5_size_check_counterexample:
  "DecipherFile no_codecs no_faults (Some test_password) test_param
     \<lparr>cipher_data = test_file 0 test_header_10 test_body, plain_data = None, tmp_data = None\<rparr>
   = Some (Returns None,
           \<lparr>cipher_data = test_file 0 test_header_10 test_body,
             plain_data = Some [112, 108, 97, 105, 110, 32, 116, 101, 120, 116], tmp_data = None\<rparr>) \<and>
   DecipherFile no_codecs no_faults (Some test_password) test_param
     \<lparr>cipher_data = test_file 0 test_header_11 test_body, plain_data = None, tmp_data = None\<rparr>
   = Some (Returns (Some ErrDecipher),
           \<lparr>cipher_data = test_file 0 test_header_11 test_body,
             plain_data = Some [112, 108, 97, 105, 110, 32, 116, 101, 120, 116], tmp_data = None\<rparr>)"
  by (simp add: DecipherFile_V2 test_file_parts doDecipherV2_def test_header_10_deciphered
      test_header_11_deciphered test_body_deciphered write_plain_def)

text \<open>
  C5, as amended. For a VersionedV2 input that is not compressed, whose header is read
  and whose decryption succeeds, the bytes decrypted are written to the plain file, all
  of them flushed, and no temporary file is touched
  (\<open>doDecipherV2_uncompressed_no_tmp\<close>); the count returned is the number of those
  bytes; and the operation succeeds exactly when that count is the size in the header,
  and returns \<open>ErrDecipher\<close> otherwise.
\<close>

theorem C5_uncompressed_size_check:
  assumes "encryptVersion ftype = 2" "\<not> compressed ftype"
    and "decipherV2Header flt (cipher_data s) password = Returns (Inr hdr)"
    and "doDecipher flt ftype hdr (cipher_data s) 80 NewWriter = (w, Returns (n, None))"
  shows "doDecipherV2 lib flt ftype password s
         = (Returns (n, if n = size_field hdr then None else Some ErrDecipher),
            write_plain s (flushed w)) \<and>
         tmp_data (write_plain s (flushed w)) = tmp_data s \<and>
         pending w = [] \<and> n = of_nat (length (flushed w))"
  using assms doDecipher_success [OF assms(4)]
  by (simp add: doDecipherV2_def write_plain_def)

text \<open>
  An instance: the example file whose header says 11.
\<close>

theorem C5_uncompressed_size_check_witness:
  "encryptVersion \<lparr>compressed = False, encryptVersion = 2\<rparr> = 2 \<and>
   \<not> compressed \<lparr>compressed = False, encryptVersion = 2\<rparr> \<and>
   decipherV2Header no_faults
     (cipher_data \<lparr>cipher_data = test_file 0 test_header_11 test_body, plain_data = Some [], tmp_data = None\<rparr>)
     (Some test_password)
   = Returns (Inr \<lparr>size_field = 11, ckey = test_ckey, salt = test_iv\<rparr>) \<and>
   doDecipher no_faults \<lparr>compressed = False, encryptVersion = 2\<rparr>
     \<lparr>size_field = 11, ckey = test_ckey, salt = test_iv\<rparr>
     (cipher_data \<lparr>cipher_data = test_file 0 test_header_11 test_body, plain_data = Some [], tmp_data = None\<rparr>)
     80 NewWriter
   = (\<lparr>flushed = [112, 108, 97, 105, 110, 32, 116, 101, 120, 116], pending = []\<rparr>, Returns (10, None)) \<and>
   doDecipherV2 no_codecs no_faults \<lparr>compressed = False, encryptVersion = 2\<rparr> (Some test_password)
     \<lparr>cipher_data = test_file 0 test_header_11 test_body, plain_data = Some [], tmp_data = None\<rparr>
   = (Returns (10, Some ErrDecipher),
      \<lparr>cipher_data = test_file 0 test_header_11 test_body,
        plain_data = Some [112, 108, 97, 105, 110, 32, 116, 101, 120, 116], tmp_data = None\<rparr>)"
proof -
  let ?ft = "\<lparr>compressed = False, encryptVersion = 2\<rparr>"
  let ?s = "\<lparr>cipher_data = test_file 0 test_header_11 test_body, plain_data = Some [], tmp_data = None\<rparr>"
  have h1: "encryptVersion ?ft = 2" and h2: "\<not> compressed ?ft" by simp_all
  have h3: "decipherV2Header no_faults (cipher_data ?s) (Some test_password)
            = Returns (Inr \<lparr>size_field = 11, ckey = test_ckey, salt = test_iv\<rparr>)"
    by (simp add: test_header_11_deciphered)
  have h4: "doDecipher no_faults ?ft \<lparr>size_field = 11, ckey = test_ckey, salt = test_iv\<rparr>
              (cipher_data ?s) 80 NewWriter
            = (\<lparr>flushed = [112, 108, 97, 105, 110, 32, 116, 101, 120, 116], pending = []\<rparr>, Returns (10, None))"
    by (simp add: test_body_deciphered)
  from C5_uncompressed_size_check [OF h1 h2 h3 h4, of no_codecs] h1 h2 h3 h4
  show ?thesis by (simp add: write_plain_def)
qed



text \<open>
  C7. Format detection reads a magic of eight bytes: the OpenSSL prefix gives
  GenericSalted, the magic of version 1 gives LegacyV1, the magic of version 2 followed
  by two more bytes gives VersionedV2, compressed exactly when the second of the two is
  1; any other magic, or fewer than 8 (for version 2, 10) bytes, gives Unrecognized.
  That is \<open>detect_spec\<close>, and \<open>checkCipheredFile\<close> computes it. On an Unrecognized
  input that can be opened, \<open>DecipherFile\<close> returns \<open>NoCipherFile\<close> and leaves the
  files as they are, whatever the password of the request and the password of the
  package.
\<close>

theorem C7_format_detection:
  "format_of (checkCipheredFile data) = detect_spec data \<and>
   (detect_spec (cipher_data s) = Unrecognized \<and> open_cipher flt = None \<longrightarrow>
      DecipherFile lib flt password param s = Some (Returns (Some NoCipherFile), s))"
  by (auto simp: checkCipheredFile_format detect_spec_Unrecognized_iff DecipherFile_def)

text \<open>
  An instance: a file of the version 2 magic and three more bytes is VersionedV2 and
  compressed; the magic and one more byte is Unrecognized, and \<open>DecipherFile\<close> returns
  \<open>NoCipherFile\<close> on it.
\<close>

theorem C7_format_detection_witness:
  "format_of (checkCipheredFile [75, 202, 148, 114, 94, 131, 28, 49, 0, 1, 7]) = VersionedV2 True \<and>
   detect_spec [75, 202, 148, 114, 94, 131, 28, 49, 0] = Unrecognized \<and>
   open_cipher no_faults = None \<and>
   DecipherFile no_codecs no_faults (Some [116, 101, 115, 116])
     \<lparr>CipheredFileName = ''in'', PlainFileName = ''out'', Password = [116, 101, 115, 116], Verbose = False\<rparr>
     \<lparr>cipher_data = [75, 202, 148, 114, 94, 131, 28, 49, 0], plain_data = None, tmp_data = None\<rparr>
   = Some (Returns (Some NoCipherFile),
           \<lparr>cipher_data = [75, 202, 148, 114, 94, 131, 28, 49, 0], plain_data = None, tmp_data = None\<rparr>)"
  using C7_format_detection [of "[75, 202, 148, 114, 94, 131, 28, 49, 0, 1, 7]"
      "\<lparr>cipher_data = [75, 202, 148, 114, 94, 131, 28, 49, 0], plain_data = None, tmp_data = None\<rparr>"
      no_faults no_codecs "Some [116, 101, 115, 116]"
      "\<lparr>CipheredFileName = ''in'', PlainFileName = ''out'', Password = [116, 101, 115, 116], Verbose = False\<rparr>"]
  by (simp add: detect_spec_def no_faults_def QNAPFilePrefixV2Bytes_def QNAPFilePrefixV1Bytes_def OpenSSLPrefix_def)

text \<open>
  C8. For a password that is not empty and a stream of at least 80 bytes (and a seek
  that succeeds), \<open>decipherV2Header\<close> returns a header. The key \<open>K\<close> it decrypts
  with is the password repeated end to end and cut to 32 bytes. The plaintext \<open>P\<close> of
  the header is the decryption of the four blocks of 16 bytes at the offsets 16, 32, 48
  and 64, each on its own with \<open>K\<close>. The content key is the bytes 8 to 39 of \<open>P\<close>,
  the vector the bytes 40 to 55, and the size the number that the bytes 56 to 63 spell,
  most significant byte first.
\<close>

theorem C8_header_derivation:
  assumes "pw \<noteq> []" "80 \<le> length data" "seek_cipher flt 16 = None"
  shows "\<exists>hdr. decipherV2Header flt data (Some pw) = Returns (Inr hdr) \<and>
     (let K = stretch_spec pw;
          P = aes_decrypt K (take 16 (drop 16 data)) @ aes_decrypt K (take 16 (drop 32 data))
              @ aes_decrypt K (take 16 (drop 48 data)) @ aes_decrypt K (take 16 (drop 64 data))
      in stretch_password pw = Returns K \<and> length K = 32 \<and> length P = 64 \<and>
         ckey hdr = take 32 (drop 8 P) \<and> salt hdr = take 16 (drop 40 P) \<and>
         unat (size_field hdr) = be_value (take 8 (drop 56 P)))"
proof -
  let ?K = "stretch_spec pw"
  let ?P = "decrypt_header_blocks ?K (take 64 (drop 16 data))"
  have k: "stretch_password pw = Returns ?K"
    using assms(1) by (rule stretch_password_spec)
  have v: "unat (BigEndian_Uint64 (take 8 (drop 56 ?P))) = be_value (take 8 (drop 56 ?P))"
    by (rule BigEndian_Uint64_value) simp
  have p: "?P = aes_decrypt ?K (take 16 (drop 16 data)) @ aes_decrypt ?K (take 16 (drop 32 data))
              @ aes_decrypt ?K (take 16 (drop 48 data)) @ aes_decrypt ?K (take 16 (drop 64 data))"
    using assms(2) by (rule decrypt_header_blocks_of_file)
  have l: "length ?K = 32" by (simp add: stretch_spec_def)
  have lp: "length ?P = 64" by simp
  show ?thesis
    unfolding decipherV2Header_Returns [OF assms] Let_def p [symmetric]
    using k v l lp by simp
qed

text \<open>
  An instance: the header of the example file, with the password \<open>test123\<close>.
\<close>

theorem C8_header_derivation_witness:
  "test_password \<noteq> [] \<and>
   80 \<le> length (test_file 0 test_header_10 test_body) \<and>
   seek_cipher no_faults 16 = None \<and>
   decipherV2Header no_faults (test_file 0 test_header_10 test_body) (Some test_password)
   = Returns (Inr \<lparr>size_field = 10, ckey = test_ckey, salt = test_iv\<rparr>) \<and>
   (\<exists>hdr. decipherV2Header no_faults (test_file 0 test_header_10 test_body) (Some test_password)
            = Returns (Inr hdr) \<and>
     (let K = stretch_spec test_password;
          P = aes_decrypt K (take 16 (drop 16 (test_file 0 test_header_10 test_body)))
              @ aes_decrypt K (take 16 (drop 32 (test_file 0 test_header_10 test_body)))
              @ aes_decrypt K (take 16 (drop 48 (test_file 0 test_header_10 test_body)))
              @ aes_decrypt K (take 16 (drop 64 (test_file 0 test_header_10 test_body)))
      in stretch_password test_password = Returns K \<and> length K = 32 \<and> length P = 64 \<and>
         ckey hdr = take 32 (drop 8 P) \<and> salt hdr = take 16 (drop 40 P) \<and>
         unat (size_field hdr) = be_value (take 8 (drop 56 P))))"
proof -
  have h1: "test_password \<noteq> []" by simp
  have h2: "80 \<le> length (test_file 0 test_header_10 test_body)" by (simp add: test_file_parts)
  have h3: "seek_cipher no_faults 16 = None" by simp
  have e: "decipherV2Header no_faults (test_file 0 test_header_10 test_body) (Some test_password)
           = Returns (Inr \<lparr>size_field = 10, ckey = test_ckey, salt = test_iv\<rparr>)"
    by (simp add: test_header_10_deciphered)
  from C8_header_derivation [OF h1 h2 h3] h1 h2 h3 e show ?thesis by blast
qed

text \<open>
  C9. On a VersionedV2 input the result of \<open>DecipherFile\<close> does not depend on the
  field \<open>Password\<close> of the request: the password that reaches \<open>doDecipherV2\<close> is
  the variable of the package. On a GenericSalted input the result does not depend on
  that variable: the password that reaches \<open>doDecipherOpenSSL\<close>, and from there
  \<open>EVPBytesToKey\<close>, is the field of the request. On a GenericSalted input that holds
  its salt, when no call of the operating system fails, \<open>EVPBytesToKey\<close> returns the
  key and the vector that the specification derives from the field \<open>Password\<close> and
  the salt of the file; the body from offset 16 is deciphered with this key and
  vector; an error of the deciphering is the result, with the plain file empty; and
  otherwise the plain file holds what \<open>bzip2\<close> makes of the deciphered bytes, and the
  result is the error of the decompression, if any. The temporary file is removed.
\<close>

theorem C9_password_sources:
  "(encryptVersion (checkCipheredFile (cipher_data s2)) = 2 \<longrightarrow>
      DecipherFile lib flt g (param\<lparr>Password := p1\<rparr>) s2
      = DecipherFile lib flt g (param\<lparr>Password := p2\<rparr>) s2) \<and>
   (encryptVersion (checkCipheredFile (cipher_data s2)) = 2 \<and> open_cipher flt = None
      \<and> create_plain flt = None \<longrightarrow>
      DecipherFile lib flt g param s2
      = (case doDecipherV2 lib flt (checkCipheredFile (cipher_data s2)) g (s2\<lparr>plain_data := Some []\<rparr>) of
           (res, s') \<Rightarrow> Some (map_outcome snd res, s'))) \<and>
   (encryptVersion (checkCipheredFile (cipher_data s0)) = 0 \<longrightarrow>
      DecipherFile lib flt g1 param s0 = DecipherFile lib flt g2 param s0) \<and>
   (encryptVersion (checkCipheredFile (cipher_data s0)) = 0 \<and> open_cipher flt = None
      \<and> create_plain flt = None \<longrightarrow>
      DecipherFile lib flt g param s0
      = map_option (\<lambda>(res, s'). (map_outcome snd res, s'))
          (doDecipherOpenSSL lib flt (checkCipheredFile (cipher_data s0)) (Password param)
             (s0\<lparr>plain_data := Some []\<rparr>))) \<and>
   (encryptVersion (checkCipheredFile (cipher_data s0)) = 0 \<and> 16 \<le> length (cipher_data s0)
      \<and> open_cipher flt = None \<and> create_plain flt = None \<and> seek_cipher flt 8 = None
      \<and> create_tmp flt = None \<and> seek_tmp flt = None \<longrightarrow>
      (let sl = take 8 (drop 8 (cipher_data s0));
           kdf = salted_kdf_spec md5_Sum (Password param) sl;
           dd = doDecipher flt (checkCipheredFile (cipher_data s0))
                  \<lparr>size_field = 0, ckey = fst kdf, salt = snd kdf\<rparr> (cipher_data s0) 16 NewWriter;
           bz = bzip2_Reader lib (flushed (fst dd))
       in EVPBytesToKey 32 16 md5_Sum (Some sl) (Some (Password param)) 1 = Some (Returns kdf) \<and>
          (\<exists>n err. snd dd = Returns (n, err) \<and>
             DecipherFile lib flt g param s0
             = Some (case err of
                       Some e \<Rightarrow> (Returns (Some e), s0\<lparr>plain_data := Some [], tmp_data := None\<rparr>)
                     | None \<Rightarrow>
                         (Returns (map_option (Errorf_wv ''%w: failed to decompress file (%v)'' ErrDecipher)
                                     (snd bz)),
                          s0\<lparr>plain_data := Some (fst bz), tmp_data := None\<rparr>)))))"
proof -
  have salted: "(let sl = take 8 (drop 8 (cipher_data s0));
           kdf = salted_kdf_spec md5_Sum (Password param) sl;
           dd = doDecipher flt (checkCipheredFile (cipher_data s0))
                  \<lparr>size_field = 0, ckey = fst kdf, salt = snd kdf\<rparr> (cipher_data s0) 16 NewWriter;
           bz = bzip2_Reader lib (flushed (fst dd))
       in EVPBytesToKey 32 16 md5_Sum (Some sl) (Some (Password param)) 1 = Some (Returns kdf) \<and>
          (\<exists>n err. snd dd = Returns (n, err) \<and>
             DecipherFile lib flt g param s0
             = Some (case err of
                       Some e \<Rightarrow> (Returns (Some e), s0\<lparr>plain_data := Some [], tmp_data := None\<rparr>)
                     | None \<Rightarrow>
                         (Returns (map_option (Errorf_wv ''%w: failed to decompress file (%v)'' ErrDecipher)
                                     (snd bz)),
                          s0\<lparr>plain_data := Some (fst bz), tmp_data := None\<rparr>))))"
    if v: "encryptVersion (checkCipheredFile (cipher_data s0)) = 0" and len: "16 \<le> length (cipher_data s0)"
      and f: "open_cipher flt = None" "create_plain flt = None" "seek_cipher flt 8 = None"
        "create_tmp flt = None" "seek_tmp flt = None"
  proof -
    define sl where "sl = take 8 (drop 8 (cipher_data s0))"
    define kdf where "kdf = salted_kdf_spec md5_Sum (Password param) sl"
    define dd where "dd = doDecipher flt (checkCipheredFile (cipher_data s0))
                  \<lparr>size_field = 0, ckey = fst kdf, salt = snd kdf\<rparr> (cipher_data s0) 16 NewWriter"
    have l8: "8 \<le> length sl" "take 8 sl = sl"
      using len by (simp_all add: sl_def)
    have evp: "EVPBytesToKey 32 16 md5_Sum (Some sl) (Some (Password param)) 1 = Some (Returns kdf)"
      using EVPBytesToKey_three_digests [of md5_Sum sl "Password param"] l8
      by (simp add: length_md5_Sum kdf_def)
    have "length (salt \<lparr>size_field = 0, ckey = fst kdf, salt = snd kdf\<rparr>) = 16"
      by (simp add: kdf_def length_salted_kdf_spec)
    from doDecipher_no_panic [OF this, of flt "checkCipheredFile (cipher_data s0)" "cipher_data s0" 16 NewWriter]
    obtain n err where r: "snd dd = Returns (n, err)"
      by (cases "snd dd") (auto simp: dd_def)
    have k: "salted_kdf_spec md5_Sum (Password param) (take 8 (drop 8 (cipher_data s0))) = (fst kdf, snd kdf)"
      by (simp add: kdf_def sl_def)
    have d: "doDecipher flt (checkCipheredFile (cipher_data s0))
               \<lparr>size_field = 0, ckey = fst kdf, salt = snd kdf\<rparr> (cipher_data s0) 16 NewWriter
             = (fst dd, Returns (n, err))"
      using r by (simp add: dd_def prod_eq_iff)
    from DecipherFile_GenericSalted [OF v len f k d, of lib g] evp r
    show ?thesis
      unfolding Let_def sl_def [symmetric] kdf_def [symmetric] dd_def [symmetric] by blast
  qed
  show ?thesis
    using salted by (simp add: DecipherFile_def split: option.split)
qed

text \<open>
  Two instances. The example file of version 2 is deciphered with the password of the
  package whether the request carries the empty password or the right one. The example
  file of the salted format is deciphered with the password of the request whatever
  the variable of the package is: with \<open>test123\<close> in the request the plain file holds
  the text, and with \<open>wrong\<close> in the request the call fails on the padding and the
  plain file is empty.
\<close>

theorem C9_password_sources_witness:
  "encryptVersion (checkCipheredFile (cipher_data
     \<lparr>cipher_data = test_file 0 test_header_10 test_body, plain_data = None, tmp_data = None\<rparr>)) = 2 \<and>
   DecipherFile no_codecs no_faults (Some test_password) (test_param\<lparr>Password := []\<rparr>)
     \<lparr>cipher_data = test_file 0 test_header_10 test_body, plain_data = None, tmp_data = None\<rparr>
   = DecipherFile no_codecs no_faults (Some test_password) (test_param\<lparr>Password := test_password\<rparr>)
       \<lparr>cipher_data = test_file 0 test_header_10 test_body, plain_data = None, tmp_data = None\<rparr> \<and>
   DecipherFile no_codecs no_faults (Some test_password) (test_param\<lparr>Password := []\<rparr>)
     \<lparr>cipher_data = test_file 0 test_header_10 test_body, plain_data = None, tmp_data = None\<rparr>
   = Some (Returns None,
           \<lparr>cipher_data = test_file 0 test_header_10 test_body,
             plain_data = Some [112, 108, 97, 105, 110, 32, 116, 101, 120, 116], tmp_data = None\<rparr>) \<and>
   encryptVersion (checkCipheredFile (cipher_data
     \<lparr>cipher_data = salted_file, plain_data = None, tmp_data = None\<rparr>)) = 0 \<and>
   DecipherFile text_codecs no_faults None test_param
     \<lparr>cipher_data = salted_file, plain_data = None, tmp_data = None\<rparr>
   = DecipherFile text_codecs no_faults (Some wrong_password) test_param
       \<lparr>cipher_data = salted_file, plain_data = None, tmp_data = None\<rparr> \<and>
   EVPBytesToKey 32 16 md5_Sum (Some salted_salt) (Some test_password) 1
   = Some (Returns (salted_key, salted_iv)) \<and>
   DecipherFile text_codecs no_faults (Some wrong_password) test_param
     \<lparr>cipher_data = salted_file, plain_data = None, tmp_data = None\<rparr>
   = Some (Returns None,
           \<lparr>cipher_data = salted_file, plain_data = Some [112, 108, 97, 105, 110, 32, 116, 101, 120, 116],
             tmp_data = None\<rparr>) \<and>
   EVPBytesToKey 32 16 md5_Sum (Some salted_salt) (Some wrong_password) 1
   = Some (Returns (wrong_key, wrong_iv)) \<and>
   DecipherFile text_codecs no_faults (Some test_password) (test_param\<lparr>Password := wrong_password\<rparr>)
     \<lparr>cipher_data = salted_file, plain_data = None, tmp_data = None\<rparr>
   = Some (Returns (Some (Errorf_wv ''%w: %v'' ErrDecipher
                            (Errorf_w ''%w: invalid padding, maybe incorrect password'' ErrDecipher))),
           \<lparr>cipher_data = salted_file, plain_data = Some [], tmp_data = None\<rparr>)"
proof -
  let ?s2 = "\<lparr>cipher_data = test_file 0 test_header_10 test_body, plain_data = None, tmp_data = None\<rparr>"
  let ?s0 = "\<lparr>cipher_data = salted_file, plain_data = None, tmp_data = None\<rparr>"
  have v2: "encryptVersion (checkCipheredFile (cipher_data ?s2)) = 2" by (simp add: test_file_parts)
  have v0: "encryptVersion (checkCipheredFile (cipher_data ?s0)) = 0" by (simp add: salted_file_parts)
  have run: "DecipherFile no_codecs no_faults (Some test_password) (test_param\<lparr>Password := []\<rparr>) ?s2
     = Some (Returns None,
           \<lparr>cipher_data = test_file 0 test_header_10 test_body,
             plain_data = Some [112, 108, 97, 105, 110, 32, 116, 101, 120, 116], tmp_data = None\<rparr>)"
    by (simp add: DecipherFile_V2 test_file_parts doDecipherV2_def test_header_10_deciphered
        test_body_deciphered write_plain_def)
  have right: "doDecipher no_faults \<lparr>compressed = False, encryptVersion = 0\<rparr>
                 \<lparr>size_field = 0, ckey = salted_key, salt = salted_iv\<rparr> salted_file 16 NewWriter
               = (\<lparr>flushed = bzip2_text, pending = []\<rparr>, Returns (49, None))"
    by (simp add: salted_body_deciphered)
  have wrong: "doDecipher no_faults \<lparr>compressed = False, encryptVersion = 0\<rparr>
                 \<lparr>size_field = 0, ckey = wrong_key, salt = wrong_iv\<rparr> salted_file 16 NewWriter
               = (NewWriter,
                  Returns (0, Some (Errorf_wv ''%w: %v'' ErrDecipher
                                     (Errorf_w ''%w: invalid padding, maybe incorrect password'' ErrDecipher))))"
    by (simp add: salted_body_wrong_key)
  note v2_instance = C9_password_sources [where ?s2.0 = ?s2 and lib = no_codecs and flt = no_faults
      and g = "Some test_password" and param = test_param and ?p1.0 = "[]" and ?p2.0 = test_password
      and ?s0.0 = ?s2 and ?g1.0 = None and ?g2.0 = None]
  from v2_instance [THEN conjunct1] v2
  have a: "DecipherFile no_codecs no_faults (Some test_password) (test_param\<lparr>Password := []\<rparr>) ?s2
     = DecipherFile no_codecs no_faults (Some test_password) (test_param\<lparr>Password := test_password\<rparr>) ?s2"
    by simp
  note right_instance = C9_password_sources [where ?s2.0 = ?s2 and lib = text_codecs and flt = no_faults
      and g = "Some wrong_password" and param = test_param and ?p1.0 = "[]" and ?p2.0 = "[]"
      and ?s0.0 = ?s0 and ?g1.0 = None and ?g2.0 = "Some wrong_password"]
  from right_instance [THEN conjunct2, THEN conjunct2, THEN conjunct1] v0
  have b: "DecipherFile text_codecs no_faults None test_param ?s0
             = DecipherFile text_codecs no_faults (Some wrong_password) test_param ?s0"
    by simp
  from right_instance [THEN conjunct2, THEN conjunct2, THEN conjunct2, THEN conjunct2] v0
  have c: "EVPBytesToKey 32 16 md5_Sum (Some salted_salt) (Some test_password) 1
             = Some (Returns (salted_key, salted_iv))"
    and d: "DecipherFile text_codecs no_faults (Some wrong_password) test_param ?s0
             = Some (Returns None,
                     \<lparr>cipher_data = salted_file,
                       plain_data = Some [112, 108, 97, 105, 110, 32, 116, 101, 120, 116], tmp_data = None\<rparr>)"
    by (simp_all add: Let_def salted_file_parts test_param_def salted_kdf_test_password right text_codecs_def)
  note wrong_instance = C9_password_sources [where ?s2.0 = ?s2 and lib = text_codecs and flt = no_faults
      and g = "Some test_password" and param = "test_param\<lparr>Password := wrong_password\<rparr>"
      and ?p1.0 = "[]" and ?p2.0 = "[]" and ?s0.0 = ?s0 and ?g1.0 = None and ?g2.0 = None]
  from wrong_instance [THEN conjunct2, THEN conjunct2, THEN conjunct2, THEN conjunct2] v0
  have e: "EVPBytesToKey 32 16 md5_Sum (Some salted_salt) (Some wrong_password) 1
             = Some (Returns (wrong_key, wrong_iv))"
    and f: "DecipherFile text_codecs no_faults (Some test_password) (test_param\<lparr>Password := wrong_password\<rparr>) ?s0
             = Some (Returns (Some (Errorf_wv ''%w: %v'' ErrDecipher
                            (Errorf_w ''%w: invalid padding, maybe incorrect password'' ErrDecipher))),
                     \<lparr>cipher_data = salted_file, plain_data = Some [], tmp_data = None\<rparr>)"
    by (simp_all add: Let_def salted_file_parts salted_kdf_wrong_password wrong)
  from v2 a run v0 b c d e f show ?thesis
    by simp
qed

text \<open>
  C10. With the empty password, \<open>decipherV2Header\<close> panics on the division by the
  length of the password once the seek has succeeded, and so does \<open>DecipherFile\<close> on
  a VersionedV2 input that can be opened and whose plain file can be created: no error
  is returned. For every password that is not empty, the key stretching returns, and
  returns 32 bytes.
\<close>

theorem C10_empty_password_panics:
  "(seek_cipher flt 16 = None \<longrightarrow>
      decipherV2Header flt data (Some []) = Panics ''integer divide by zero'') \<and>
   (open_cipher flt = None \<and> create_plain flt = None \<and> seek_cipher flt 16 = None \<and>
    encryptVersion (checkCipheredFile (cipher_data s)) = 2 \<longrightarrow>
      DecipherFile lib flt (Some []) param s
      = Some (Panics ''integer divide by zero'', s\<lparr>plain_data := Some []\<rparr>)) \<and>
   (pw \<noteq> [] \<longrightarrow> (\<exists>k. stretch_password pw = Returns k \<and> length k = 32))"
proof (intro conjI impI)
  assume "seek_cipher flt 16 = None"
  then show "decipherV2Header flt data (Some []) = Panics ''integer divide by zero''"
    by (simp add: decipherV2Header_def stretch_password_def)
next
  assume a: "open_cipher flt = None \<and> create_plain flt = None \<and> seek_cipher flt 16 = None \<and>
    encryptVersion (checkCipheredFile (cipher_data s)) = 2"
  then have "decipherV2Header flt (cipher_data s) (Some []) = Panics ''integer divide by zero''"
    by (simp add: decipherV2Header_def stretch_password_def)
  with a show "DecipherFile lib flt (Some []) param s
      = Some (Panics ''integer divide by zero'', s\<lparr>plain_data := Some []\<rparr>)"
    by (simp add: DecipherFile_def doDecipherV2_def)
next
  assume "pw \<noteq> []"
  then show "\<exists>k. stretch_password pw = Returns k \<and> length k = 32"
    using stretch_password_Returns [of pw] stretch_password_length [of pw] by simp
qed

text \<open>
  An instance: the example file with the empty password, and the stretching of
  \<open>test123\<close>.
\<close>

theorem C10_empty_password_panics_witness:
  "seek_cipher no_faults 16 = None \<and>
   decipherV2Header no_faults (test_file 0 test_header_10 test_body) (Some [])
   = Panics ''integer divide by zero'' \<and>
   open_cipher no_faults = None \<and> create_plain no_faults = None \<and>
   encryptVersion (checkCipheredFile (cipher_data
     \<lparr>cipher_data = test_file 0 test_header_10 test_body, plain_data = None, tmp_data = None\<rparr>)) = 2 \<and>
   DecipherFile no_codecs no_faults (Some []) test_param
     \<lparr>cipher_data = test_file 0 test_header_10 test_body, plain_data = None, tmp_data = None\<rparr>
   = Some (Panics ''integer divide by zero'',
           \<lparr>cipher_data = test_file 0 test_header_10 test_body, plain_data = Some [], tmp_data = None\<rparr>) \<and>
   test_password \<noteq> [] \<and>
   (\<exists>k. stretch_password test_password = Returns k \<and> length k = 32)"
  using C10_empty_password_panics [where flt = no_faults
      and data = "test_file 0 test_header_10 test_body"
      and s = "\<lparr>cipher_data = test_file 0 test_header_10 test_body, plain_data = None, tmp_data = None\<rparr>"
      and lib = no_codecs and param = test_param and pw = test_password]
  by (simp add: test_file_parts)

end
